theory Spec2Isabelle
  imports Main
begin

section \<open>The generic daemon base class of infoset (\<^verbatim>\<open>infoset/utils/daemon.py\<close>)\<close>

text \<open>
  The class \<^verbatim>\<open>Daemon\<close> drives a POSIX double fork, keeps a PID file and an optional
  lock file, and offers \<^verbatim>\<open>start\<close>, \<^verbatim>\<open>stop\<close>, \<^verbatim>\<open>restart\<close>, \<^verbatim>\<open>force\<close> and \<^verbatim>\<open>status\<close>.
  Every method is embedded as a function on an explicit world: the files, the process
  table, the process executing the code, a clock that counts the calls of
  \<^verbatim>\<open>time.sleep\<close>, and the trace of the system and library calls made so far.
  A Python exception is the \<open>Raises\<close> branch of a result.

  The model follows one process, the one executing the code. Of the calls the class
  makes, \<^verbatim>\<open>os.fork\<close>, \<^verbatim>\<open>os.kill\<close>, \<^verbatim>\<open>int\<close> and the opening of the PID file for reading
  can fail here, as the code provides for; \<^verbatim>\<open>chdir\<close>, \<^verbatim>\<open>setsid\<close>, \<^verbatim>\<open>umask\<close>, the
  redirection of the streams, the writing of the PID file and \<^verbatim>\<open>os.remove\<close> after a
  positive existence check are taken to succeed. The exit hook is registered, and the
  trace says so, but the end of the process, where it would run, is outside the model,
  and so are signals that interrupt the caller.
\<close>

subsection \<open>Python strings and integers\<close>

text \<open>
  A string is the list of the code points of a text, each below 256. \<^verbatim>\<open>str.strip()\<close>
  removes from both ends the characters for which \<^verbatim>\<open>str.isspace()\<close> holds; below 256
  these are 0x09 to 0x0D, 0x1C to 0x1F, the blank, 0x85 (next line) and 0xA0 (no-break
  space). \<^verbatim>\<open>int\<close> drops the same characters around a numeral.
\<close>

definition is_space :: "char \<Rightarrow> bool" where
  "is_space c =
     (let n = (of_char c :: nat)
      in (9 \<le> n \<and> n \<le> 13) \<or> (28 \<le> n \<and> n \<le> 32) \<or> n = 133 \<or> n = 160)"

definition py_strip :: "string \<Rightarrow> string" where
  "py_strip s = rev (dropWhile is_space (rev (dropWhile is_space s)))"

text \<open>
  The decimal digits are the characters 48 to 57. \<open>digit_val\<close> is the value of a digit,
  \<open>None\<close> for any other character; \<open>digit_char\<close> is the digit of a value below ten.
\<close>

definition digit_val :: "char \<Rightarrow> nat option" where
  "digit_val c =
     (let n = (of_char c :: nat) in if 48 \<le> n \<and> n \<le> 57 then Some (n - 48) else None)"

definition digit_char :: "nat \<Rightarrow> char" where
  "digit_char d = char_of (48 + d)"

text \<open>
  \<^verbatim>\<open>int(s)\<close> on a string, base ten: surrounding whitespace is dropped, one sign may
  lead, and the digits may be grouped by single underscores, each between two digits.
  Anything else raises \<^verbatim>\<open>ValueError\<close>, which is \<open>None\<close> here. \<open>digits_val\<close> reads what
  follows a digit, with the value read so far. Below 256 the only decimal digits are
  the ASCII ones. The bound that recent versions of Python put on the number of digits
  is left out.
\<close>

fun digits_val :: "string \<Rightarrow> nat \<Rightarrow> nat option" where
  "digits_val [] acc = Some acc"
| "digits_val (c # cs) acc =
     (case digit_val c of
        Some d \<Rightarrow> digits_val cs (10 * acc + d)
      | None \<Rightarrow>
          (if c = CHR ''_'' then
             (case cs of
                [] \<Rightarrow> None
              | e # es \<Rightarrow>
                  (case digit_val e of
                     Some d \<Rightarrow> digits_val es (10 * acc + d)
                   | None \<Rightarrow> None))
           else None))"

definition parse_nat :: "string \<Rightarrow> nat option" where
  "parse_nat s =
     (case s of
        [] \<Rightarrow> None
      | c # cs \<Rightarrow> (case digit_val c of Some d \<Rightarrow> digits_val cs d | None \<Rightarrow> None))"

definition py_int :: "string \<Rightarrow> int option" where
  "py_int s =
     (case py_strip s of
        [] \<Rightarrow> None
      | c # cs \<Rightarrow>
          (if c = CHR ''+'' then map_option int (parse_nat cs)
           else if c = CHR ''-'' then map_option (\<lambda>n. - int n) (parse_nat cs)
           else map_option int (parse_nat (c # cs))))"

text \<open>\<^verbatim>\<open>str(n)\<close> for a natural number: its decimal digits, no sign, no leading zero.\<close>

fun str_nat :: "nat \<Rightarrow> string" where
  "str_nat n = (if n < 10 then [digit_char n] else str_nat (n div 10) @ [digit_char (n mod 10)])"

declare str_nat.simps [simp del]

text \<open>
  \<^verbatim>\<open>s.find(sub)\<close>: the lowest index at which \<open>sub\<close> occurs in \<open>s\<close>, or \<open>-1\<close>.
\<close>

fun py_find :: "string \<Rightarrow> string \<Rightarrow> int" where
  "py_find [] sub = (if sub = [] then 0 else - 1)"
| "py_find (c # cs) sub =
     (if take (length sub) (c # cs) = sub then 0
      else (let r = py_find cs sub in if r < 0 then - 1 else r + 1))"

text \<open>Python's truth value of \<^verbatim>\<open>pid\<close>, which is \<^verbatim>\<open>None\<close> or an integer.\<close>

definition truthy :: "int option \<Rightarrow> bool" where
  "truthy p = (case p of None \<Rightarrow> False | Some n \<Rightarrow> n \<noteq> 0)"

subsection \<open>Exceptions and results\<close>

text \<open>
  The error numbers that \<^verbatim>\<open>kill(2)\<close> and \<^verbatim>\<open>fork(2)\<close> report, with their Linux numbers
  and messages. An \<^verbatim>\<open>OSError\<close> raised from one of them has
  \<^verbatim>\<open>args = (number, message)\<close>.
\<close>

datatype errno = EPERM | ESRCH | EAGAIN | ENOMEM

fun errno_code :: "errno \<Rightarrow> nat" where
  "errno_code EPERM = 1"
| "errno_code ESRCH = 3"
| "errno_code EAGAIN = 11"
| "errno_code ENOMEM = 12"

fun strerror :: "errno \<Rightarrow> string" where
  "strerror EPERM = ''Operation not permitted''"
| "strerror ESRCH = ''No such process''"
| "strerror EAGAIN = ''Resource temporarily unavailable''"
| "strerror ENOMEM = ''Cannot allocate memory''"

text \<open>\<^verbatim>\<open>str(err)\<close> and \<^verbatim>\<open>str(err.args)\<close> of such an \<^verbatim>\<open>OSError\<close>.\<close>

definition str_err :: "errno \<Rightarrow> string" where
  "str_err e = ''[Errno '' @ str_nat (errno_code e) @ ''] '' @ strerror e"

definition str_args :: "errno \<Rightarrow> string" where
  "str_args e =
     ''('' @ str_nat (errno_code e) @ '', '' @ [CHR 0x27] @ strerror e @ [CHR 0x27] @ '')''"

datatype exn =
    SystemExit int
  | ValueError
  | OSError errno
  | OverflowError
  | Fatal nat string

datatype 'a result = Returns 'a | Raises exn

subsection \<open>The world\<close>

type_synonym path = string

text \<open>
  A process the kernel knows is \<open>Alive\<close> when the caller may signal it and \<open>Foreign\<close>
  when it exists but belongs to another user, so that \<^verbatim>\<open>kill(2)\<close> answers \<open>EPERM\<close>.
\<close>

datatype proc = Alive | Foreign

datatype stream = Stdin | Stdout | Stderr

datatype level = Die | Warn | Quiet

datatype event =
    ReadFile path
  | WriteFile path string
  | Exists path bool
  | Remove path
  | Kill int "exn option"
  | Sleep
  | Fork
  | Chdir path
  | Setsid
  | Umask nat
  | Flush stream
  | ToDevNull stream
  | AtexitRegister path
  | Getpid
  | Log level nat string
  | Print string
  | CallRun

record world =
  files :: "path \<rightharpoonup> string"
  procs :: "int \<rightharpoonup> proc"
  self_pid :: nat
  clock :: nat
  trace :: "event list"

record config =
  pidfile :: path
  lockfile :: "path option"

text \<open>
  Other actors change the world while the caller sleeps: the work loop creates and
  removes its lock file, processes exit and appear. The environment \<open>env\<close> gives, for
  every call of \<^verbatim>\<open>time.sleep\<close> (numbered by the clock), what happens during it. Between
  two sleeps the caller is alone.
\<close>

datatype env_action = Unlink path | Create path string | Exit int | Spawn int proc

type_synonym env = "nat \<Rightarrow> env_action list"

fun apply_action :: "env_action \<Rightarrow> world \<Rightarrow> world" where
  "apply_action (Unlink p) w = w\<lparr>files := (files w)(p := None)\<rparr>"
| "apply_action (Create p c) w = w\<lparr>files := (files w)(p \<mapsto> c)\<rparr>"
| "apply_action (Exit n) w = w\<lparr>procs := (procs w)(n := None)\<rparr>"
| "apply_action (Spawn n k) w = w\<lparr>procs := (procs w)(n \<mapsto> k)\<rparr>"

definition emit :: "event \<Rightarrow> world \<Rightarrow> world" where
  "emit e w = w\<lparr>trace := trace w @ [e]\<rparr>"

subsection \<open>System and library calls\<close>

definition time_sleep :: "env \<Rightarrow> world \<Rightarrow> world" where
  "time_sleep env w = emit Sleep ((fold apply_action (env (clock w)) w)\<lparr>clock := Suc (clock w)\<rparr>)"

definition os_path_exists :: "path \<Rightarrow> world \<Rightarrow> bool \<times> world" where
  "os_path_exists p w = (files w p \<noteq> None, emit (Exists p (files w p \<noteq> None)) w)"

definition os_remove :: "path \<Rightarrow> world \<Rightarrow> world" where
  "os_remove p w = emit (Remove p) (w\<lparr>files := (files w)(p := None)\<rparr>)"

definition write_file :: "path \<Rightarrow> string \<Rightarrow> world \<Rightarrow> world" where
  "write_file p c w = emit (WriteFile p c) (w\<lparr>files := (files w)(p \<mapsto> c)\<rparr>)"

text \<open>
  \<^verbatim>\<open>os.kill(pid, signal.SIGTERM)\<close>. The argument must fit the C type \<^verbatim>\<open>pid_t\<close> (32
  bits, signed), otherwise Python raises \<^verbatim>\<open>OverflowError\<close> before any system call.
  The event records the call and what it raised.
\<close>

definition os_kill :: "int \<Rightarrow> world \<Rightarrow> unit result \<times> world" where
  "os_kill pid w =
     (if pid < - 2147483648 \<or> 2147483647 < pid then
        (Raises OverflowError, emit (Kill pid (Some OverflowError)) w)
      else
        (case procs w pid of
           None \<Rightarrow> (Raises (OSError ESRCH), emit (Kill pid (Some (OSError ESRCH))) w)
         | Some Foreign \<Rightarrow> (Raises (OSError EPERM), emit (Kill pid (Some (OSError EPERM))) w)
         | Some Alive \<Rightarrow> (Returns (), emit (Kill pid None) w)))"

text \<open>
  \<^verbatim>\<open>os.fork()\<close>. The process whose steps are followed is the one executing the code, so
  the answer of each call is an input: the call fails, or the process is the parent and
  gets the child's identifier, or it is the child, gets 0 and has a new identifier.
\<close>

datatype fork_outcome = ForkFails errno | InParent nat | InChild nat

definition os_fork :: "fork_outcome \<Rightarrow> world \<Rightarrow> int result \<times> world" where
  "os_fork f w =
     (case f of
        ForkFails e \<Rightarrow> (Raises (OSError e), emit Fork w)
      | InParent c \<Rightarrow> (Returns (int c), emit Fork w)
      | InChild p \<Rightarrow> (Returns 0, emit Fork (w\<lparr>self_pid := p\<rparr>)))"

subsection \<open>The log module\<close>

text \<open>
  Modelled from the spec: the module \<^verbatim>\<open>infoset.utils.log\<close> is not among the sources.
  The specification calls every condition reported through \<^verbatim>\<open>log2die\<close> fatal (the
  invocation ends, with a message and a nonzero exit code), and the conditions reported
  through \<^verbatim>\<open>log2warn\<close> and \<^verbatim>\<open>log2quiet\<close> a warning and a success message after which
  the caller goes on.
\<close>

definition log2die :: "nat \<Rightarrow> string \<Rightarrow> world \<Rightarrow> unit result \<times> world" where
  "log2die code msg w = (Raises (Fatal code msg), emit (Log Die code msg) w)"

definition log2warn :: "nat \<Rightarrow> string \<Rightarrow> world \<Rightarrow> world" where
  "log2warn code msg w = emit (Log Warn code msg) w"

definition log2quiet :: "nat \<Rightarrow> string \<Rightarrow> world \<Rightarrow> world" where
  "log2quiet code msg w = emit (Log Quiet code msg) w"

subsection \<open>The methods of \<^verbatim>\<open>Daemon\<close>\<close>

text \<open>
  \<^verbatim>\<open>start\<close> and \<^verbatim>\<open>stop\<close> begin with the same statement:
  \<^verbatim>\<open>
  try:
      with open(self.pidfile, 'r') as pf_handle:
          pid = int(pf_handle.read().strip())
  except IOError:
      pid = None
  \<close>
  A file that cannot be opened gives \<^verbatim>\<open>None\<close>; the \<^verbatim>\<open>ValueError\<close> of \<^verbatim>\<open>int\<close> is not
  caught and leaves the method.
\<close>

definition read_pid :: "path \<Rightarrow> world \<Rightarrow> int option result \<times> world" where
  "read_pid p w =
     (case files w p of
        None \<Rightarrow> (Returns None, emit (ReadFile p) w)
      | Some c \<Rightarrow>
          (case py_int (py_strip c) of
             None \<Rightarrow> (Raises ValueError, emit (ReadFile p) w)
           | Some n \<Rightarrow> (Returns (Some n), emit (ReadFile p) w)))"

definition delpid :: "config \<Rightarrow> world \<Rightarrow> world" where
  "delpid cfg w =
     (case os_path_exists (pidfile cfg) w of
        (b, w1) \<Rightarrow> if b then os_remove (pidfile cfg) w1 else w1)"

definition dellock :: "config \<Rightarrow> world \<Rightarrow> world" where
  "dellock cfg w =
     (case lockfile cfg of
        None \<Rightarrow> w
      | Some l \<Rightarrow>
          (case os_path_exists l w of
             (b, w1) \<Rightarrow> if b then os_remove l w1 else w1))"

text \<open>
  The redirection of the standard streams: both output streams are flushed, then each
  of the three descriptors is replaced by one opened on the null device.
\<close>

definition redirect_std :: "world \<Rightarrow> world" where
  "redirect_std w =
     emit (ToDevNull Stderr) (emit (ToDevNull Stdout) (emit (ToDevNull Stdin)
       (emit (Flush Stderr) (emit (Flush Stdout) w))))"

text \<open>
  \<^verbatim>\<open>daemonize\<close>, with the answers of its two calls of \<^verbatim>\<open>os.fork\<close>. \<^verbatim>\<open>sys.exit(0)\<close> in
  a parent raises \<^verbatim>\<open>SystemExit\<close>, which the handler for \<^verbatim>\<open>OSError\<close> lets pass.
\<close>

definition daemonize :: "config \<Rightarrow> fork_outcome \<Rightarrow> fork_outcome \<Rightarrow> world \<Rightarrow> unit result \<times> world" where
  "daemonize cfg f1 f2 w =
     (case os_fork f1 w of
        (Raises (OSError e), w1) \<Rightarrow>
          log2die 1060
            (''Daemon fork #1 failed: '' @ str_err e @ '' - PID file: '' @ pidfile cfg) w1
      | (Raises x, w1) \<Rightarrow> (Raises x, w1)
      | (Returns pid, w1) \<Rightarrow>
          if pid > 0 then (Raises (SystemExit 0), w1)
          else
            (let w2 = emit (Umask 0) (emit Setsid (emit (Chdir ''/'') w1)) in
             case os_fork f2 w2 of
               (Raises (OSError e), w3) \<Rightarrow>
                 log2die 1061
                   (''Daemon fork #2 failed: '' @ str_err e @ '' - PID file: '' @ pidfile cfg) w3
             | (Raises x, w3) \<Rightarrow> (Raises x, w3)
             | (Returns pid, w3) \<Rightarrow>
                 if pid > 0 then (Raises (SystemExit 0), w3)
                 else
                   (let w4 = redirect_std w3;
                        w5 = emit (AtexitRegister (pidfile cfg)) w4;
                        w6 = emit Getpid w5
                    in (Returns (),
                        write_file (pidfile cfg) (str_nat (self_pid w6) @ [CHR 0x0A]) w6))))"

text \<open>
  \<^verbatim>\<open>start\<close> up to the call of \<^verbatim>\<open>self.run()\<close>: the check of the PID file,
  \<^verbatim>\<open>daemonize\<close> and the success message.
\<close>

definition before_run :: "config \<Rightarrow> fork_outcome \<Rightarrow> fork_outcome \<Rightarrow> world \<Rightarrow> unit result \<times> world" where
  "before_run cfg f1 f2 w =
     (case read_pid (pidfile cfg) w of
        (Raises x, w1) \<Rightarrow> (Raises x, w1)
      | (Returns pid, w1) \<Rightarrow>
          if truthy pid then
            log2die 1062
              (''PID file: '' @ pidfile cfg @ '' already exists. Daemon already running?'') w1
          else
            (case daemonize cfg f1 f2 w1 of
               (Raises x, w2) \<Rightarrow> (Raises x, w2)
             | (Returns u, w2) \<Rightarrow>
                 (Returns (),
                  log2quiet 1070 (''Daemon Started - PID file: '' @ pidfile cfg) w2)))"

text \<open>
  \<^verbatim>\<open>start\<close>. The behaviour \<open>run\<close> is supplied by the subclass; it may never return,
  which is \<open>None\<close>.
\<close>

type_synonym behaviour = "world \<Rightarrow> (unit result \<times> world) option"

definition start :: "config \<Rightarrow> behaviour \<Rightarrow> fork_outcome \<Rightarrow> fork_outcome \<Rightarrow> world \<Rightarrow> (unit result \<times> world) option" where
  "start cfg run f1 f2 w =
     (case before_run cfg f1 f2 w of
        (Raises x, w1) \<Rightarrow> Some (Raises x, w1)
      | (Returns u, w1) \<Rightarrow> run (emit CallRun w1))"

text \<open>
  One pass through the body of the loop \<^verbatim>\<open>while 1\<close> of \<^verbatim>\<open>stop\<close>. It ends by an
  exception (\<open>Some\<close>), or reaches the end of the body or its \<^verbatim>\<open>continue\<close> (\<open>None\<close>), and
  then the loop goes on.
\<close>

definition stop_body :: "config \<Rightarrow> env \<Rightarrow> int \<Rightarrow> world \<Rightarrow> exn option \<times> world" where
  "stop_body cfg env pid w =
     (case lockfile cfg of
        None \<Rightarrow>
          (case os_kill pid w of
             (Raises x, w1) \<Rightarrow> (Some x, w1)
           | (Returns u, w1) \<Rightarrow> (None, time_sleep env w1))
      | Some l \<Rightarrow>
          (case os_path_exists l (time_sleep env w) of
             (b, w1) \<Rightarrow>
               if b then (None, w1)
               else
                 (case os_kill pid w1 of
                    (Raises x, w2) \<Rightarrow> (Some x, w2)
                  | (Returns u, w2) \<Rightarrow> (None, time_sleep env w2))))"

text \<open>
  The loop has no exit but an exception. \<open>stop_loop n\<close> runs at most \<open>n\<close> passes: it
  gives the exception that ended the loop and the world at that moment, or \<open>None\<close> and
  the world reached when the loop is still running after \<open>n\<close> passes.
\<close>

fun stop_loop :: "nat \<Rightarrow> config \<Rightarrow> env \<Rightarrow> int \<Rightarrow> world \<Rightarrow> exn option \<times> world" where
  "stop_loop 0 cfg env pid w = (None, w)"
| "stop_loop (Suc n) cfg env pid w =
     (case stop_body cfg env pid w of
        (Some x, w1) \<Rightarrow> (Some x, w1)
      | (None, w1) \<Rightarrow> stop_loop n cfg env pid w1)"

text \<open>
  The handlers of the loop's \<^verbatim>\<open>try\<close>: \<^verbatim>\<open>except OSError\<close> looks for the text
  \<^verbatim>\<open>No such process\<close> in \<^verbatim>\<open>str(err.args)\<close>, the bare \<^verbatim>\<open>except\<close> takes every other
  exception.
\<close>

definition stop_except :: "config \<Rightarrow> exn \<Rightarrow> world \<Rightarrow> unit result \<times> world" where
  "stop_except cfg x w =
     (case x of
        OSError e \<Rightarrow>
          if py_find (str_args e) ''No such process'' > 0 then
            (Returns (), dellock cfg (delpid cfg w))
          else log2die 1068 (str_args e @ '' - PID file: '' @ pidfile cfg) w
      | _ \<Rightarrow>
          log2die 1066
            (''Unknown daemon \"stop\" error for PID file: '' @ pidfile cfg) w)"

text \<open>
  \<^verbatim>\<open>stop\<close>, with the number of passes of the loop that are observed: \<open>None\<close> when the
  loop is still running after that many.
\<close>

definition stop :: "nat \<Rightarrow> config \<Rightarrow> env \<Rightarrow> world \<Rightarrow> (unit result \<times> world) option" where
  "stop fuel cfg env w =
     (case read_pid (pidfile cfg) w of
        (Raises x, w1) \<Rightarrow> Some (Raises x, w1)
      | (Returns None, w1) \<Rightarrow>
          Some (Returns (),
            log2warn 1063
              (''PID file: '' @ pidfile cfg @ '' does not exist. Daemon not running?'') w1)
      | (Returns (Some pid), w1) \<Rightarrow>
          if pid = 0 then
            Some (Returns (),
              log2warn 1063
                (''PID file: '' @ pidfile cfg @ '' does not exist. Daemon not running?'') w1)
          else
            (case stop_loop fuel cfg env pid w1 of
               (None, w2) \<Rightarrow> None
             | (Some x, w2) \<Rightarrow>
                 (case stop_except cfg x w2 of
                    (Raises y, w3) \<Rightarrow> Some (Raises y, w3)
                  | (Returns u, w3) \<Rightarrow>
                      Some (Returns (),
                        log2quiet 1071 (''Daemon Stopped - PID file: '' @ pidfile cfg)
                          (dellock cfg (delpid cfg w3))))))"

definition force :: "nat \<Rightarrow> config \<Rightarrow> env \<Rightarrow> world \<Rightarrow> (unit result \<times> world) option" where
  "force fuel cfg env w = stop fuel cfg env (dellock cfg w)"

definition restart :: "nat \<Rightarrow> config \<Rightarrow> env \<Rightarrow> behaviour \<Rightarrow> fork_outcome \<Rightarrow> fork_outcome \<Rightarrow> world \<Rightarrow> (unit result \<times> world) option" where
  "restart fuel cfg env run f1 f2 w =
     (case stop fuel cfg env w of
        None \<Rightarrow> None
      | Some (Raises x, w1) \<Rightarrow> Some (Raises x, w1)
      | Some (Returns u, w1) \<Rightarrow> start cfg run f1 f2 w1)"

definition status :: "config \<Rightarrow> world \<Rightarrow> unit result \<times> world" where
  "status cfg w =
     (case os_path_exists (pidfile cfg) w of
        (b, w1) \<Rightarrow>
          if b then (Returns (), emit (Print ''Daemon is running'') w1)
          else (Returns (), emit (Print ''Daemon is stopped'') w1))"

subsection \<open>Properties of traces and environments\<close>

text \<open>The calls of \<^verbatim>\<open>os.kill\<close> in a trace.\<close>

fun is_kill :: "event \<Rightarrow> bool" where
  "is_kill (Kill p r) = True"
| "is_kill e = False"

text \<open>
  \<open>deferred l p2 p1 evs\<close>: in the events \<open>evs\<close>, which follow the events \<open>p2\<close> and \<open>p1\<close>,
  every call of \<^verbatim>\<open>os.kill\<close> comes directly after a check that found the lock file \<open>l\<close>
  absent, and that check directly after a sleep.
\<close>

fun deferred :: "path \<Rightarrow> event option \<Rightarrow> event option \<Rightarrow> event list \<Rightarrow> bool" where
  "deferred l p2 p1 [] = True"
| "deferred l p2 p1 (e # es) =
     ((if is_kill e then p1 = Some (Exists l False) \<and> p2 = Some Sleep else True) \<and>
      deferred l p1 (Some e) es)"

text \<open>An action of the environment that leaves a process, or the existence of a file, alone.\<close>

fun spares_proc :: "int \<Rightarrow> env_action \<Rightarrow> bool" where
  "spares_proc pid (Exit n) = (n \<noteq> pid)"
| "spares_proc pid (Spawn n k) = (n \<noteq> pid)"
| "spares_proc pid a = True"

fun spares_file :: "path \<Rightarrow> env_action \<Rightarrow> bool" where
  "spares_file l (Unlink p) = (p \<noteq> l)"
| "spares_file l a = True"

subsection \<open>Example configurations and worlds\<close>

definition cfg_plain :: config where
  "cfg_plain = \<lparr>pidfile = ''/tmp/x.pid'', lockfile = None\<rparr>"

definition cfg_lock :: config where
  "cfg_lock = \<lparr>pidfile = ''/tmp/x.pid'', lockfile = Some ''/tmp/x.lock''\<rparr>"

definition world0 :: world where
  "world0 = \<lparr>files = Map.empty, procs = Map.empty, self_pid = 1, clock = 0, trace = []\<rparr>"

definition idle :: env where
  "idle t = []"

definition with_file :: "path \<Rightarrow> string \<Rightarrow> world \<Rightarrow> world" where
  "with_file p c w = w\<lparr>files := (files w)(p \<mapsto> c)\<rparr>"

definition with_proc :: "int \<Rightarrow> proc \<Rightarrow> world \<Rightarrow> world" where
  "with_proc n k w = w\<lparr>procs := (procs w)(n \<mapsto> k)\<rparr>"

definition run_returns :: behaviour where
  "run_returns w = Some (Returns (), w)"

definition world_started :: world where
  "world_started =
     (with_file ''/tmp/x.pid'' ''101\<newline>'' world0)
       \<lparr>self_pid := 101,
        trace :=
          [ReadFile ''/tmp/x.pid'', Fork, Chdir ''/'', Setsid, Umask 0, Fork,
           Flush Stdout, Flush Stderr, ToDevNull Stdin, ToDevNull Stdout, ToDevNull Stderr,
           AtexitRegister ''/tmp/x.pid'', Getpid, WriteFile ''/tmp/x.pid'' ''101\<newline>'',
           Log Quiet 1070 ''Daemon Started - PID file: /tmp/x.pid'']\<rparr>"

definition unlock_later :: env where
  "unlock_later t = (if t = 1 then [Unlink ''/tmp/x.lock''] else [])"

definition world_locked :: world where
  "world_locked = with_file ''/tmp/x.lock'' '''' (with_file ''/tmp/x.pid'' ''42\<newline>'' world0)"

definition world_stopped :: world where
  "world_stopped =
     (with_file ''/tmp/x.pid'' ''42\<newline>'' world0)
       \<lparr>clock := 2,
        trace :=
          [ReadFile ''/tmp/x.pid'', Sleep, Exists ''/tmp/x.lock'' True, Sleep,
           Exists ''/tmp/x.lock'' False, Kill 42 (Some (OSError ESRCH))]\<rparr>"

definition world_pid :: world where
  "world_pid = with_file ''/tmp/x.pid'' ''42\<newline>'' world0"

definition world_pid_stopped :: world where
  "world_pid_stopped =
     world0\<lparr>trace :=
       [ReadFile ''/tmp/x.pid'', Kill 42 (Some (OSError ESRCH)),
        Exists ''/tmp/x.pid'' True, Remove ''/tmp/x.pid'', Exists ''/tmp/x.pid'' False,
        Log Quiet 1071 ''Daemon Stopped - PID file: /tmp/x.pid'']\<rparr>"

section \<open>Facts about the model\<close>

subsection \<open>Decimal numerals are read back\<close>

lemma of_char_digit: "d < 10 \<Longrightarrow> (of_char (digit_char d) :: nat) = 48 + d"
  by (simp add: digit_char_def)

lemma digit_val_char: "d < 10 \<Longrightarrow> digit_val (digit_char d) = Some d"
  by (simp add: digit_val_def of_char_digit)

lemma digit_char_not_space: "d < 10 \<Longrightarrow> \<not> is_space (digit_char d)"
  by (simp add: is_space_def of_char_digit)

lemma digit_char_not_sign:
  "d < 10 \<Longrightarrow> digit_char d \<noteq> CHR ''+'' \<and> digit_char d \<noteq> CHR ''-''"
  using of_char_digit [of d] by auto

lemma digits_val_digits:
  "\<forall>d \<in> set ds. d < 10 \<Longrightarrow>
     digits_val (map digit_char ds) acc = Some (foldl (\<lambda>a d. 10 * a + d) acc ds)"
  by (induction ds arbitrary: acc) (simp_all add: digit_val_char)

lemma str_nat_digits:
  "\<exists>ds. str_nat n = map digit_char ds \<and> ds \<noteq> [] \<and> (\<forall>d \<in> set ds. d < 10) \<and>
        foldl (\<lambda>a d. 10 * a + d) 0 ds = n"
proof (induction n rule: str_nat.induct)
  case (1 n)
  show ?case
  proof (cases "n < 10")
    case True
    then have "str_nat n = map digit_char [n]"
      by (simp add: str_nat.simps [of n])
    with True show ?thesis
      by (intro exI [of _ "[n]"]) simp
  next
    case False
    with "1" obtain ds where ds: "str_nat (n div 10) = map digit_char ds" "ds \<noteq> []"
      "\<forall>d \<in> set ds. d < 10" "foldl (\<lambda>a d. 10 * a + d) 0 ds = n div 10"
      by blast
    from False have "str_nat n = map digit_char (ds @ [n mod 10])"
      using ds(1) by (simp add: str_nat.simps [of n])
    moreover have "foldl (\<lambda>a d. 10 * a + d) 0 (ds @ [n mod 10]) = n"
      using ds(4) by simp
    ultimately show ?thesis
      using ds(2,3) by (intro exI [of _ "ds @ [n mod 10]"]) simp
  qed
qed

lemma strip_digits:
  assumes "ds \<noteq> []" and small: "\<forall>d \<in> set ds. d < 10"
  shows "py_strip (map digit_char ds) = map digit_char ds"
    and "py_strip (map digit_char ds @ [CHR 0x0A]) = map digit_char ds"
proof -
  from assms obtain d ds' where front: "ds = d # ds'"
    by (cases ds) auto
  from assms obtain es e where rear: "ds = es @ [e]"
    by (cases ds rule: rev_cases) auto
  from small front have "\<not> is_space (digit_char d)"
    by (simp add: digit_char_not_space)
  then have lead: "dropWhile is_space (map digit_char ds @ xs) = map digit_char ds @ xs" for xs
    by (simp add: front)
  from small rear have "\<not> is_space (digit_char e)"
    by (simp add: digit_char_not_space)
  then have trail: "dropWhile is_space (rev (map digit_char ds)) = rev (map digit_char ds)"
    by (simp add: rear)
  show "py_strip (map digit_char ds) = map digit_char ds"
    using lead [of "[]"] trail by (simp add: py_strip_def)
  have "is_space (CHR 0x0A)"
    by (simp add: is_space_def)
  then show "py_strip (map digit_char ds @ [CHR 0x0A]) = map digit_char ds"
    using lead [of "[CHR 0x0A]"] trail by (simp add: py_strip_def)
qed

lemma py_int_digits:
  assumes "ds \<noteq> []" and "\<forall>d \<in> set ds. d < 10"
  shows "py_int (map digit_char ds) = Some (int (foldl (\<lambda>a d. 10 * a + d) 0 ds))"
proof -
  from assms obtain d ds' where front: "ds = d # ds'"
    by (cases ds) auto
  with assms(2) have d: "d < 10" and rest: "\<forall>d \<in> set ds'. d < 10"
    by simp_all
  then have "parse_nat (map digit_char ds) = Some (foldl (\<lambda>a d. 10 * a + d) 0 ds)"
    by (simp add: parse_nat_def front digit_val_char digits_val_digits)
  then show ?thesis
    using strip_digits(1) [OF assms] digit_char_not_sign [OF d]
    by (simp add: py_int_def front)
qed

lemma read_back_str_nat:
  "py_int (py_strip (str_nat n @ [CHR 0x0A])) = Some (int n)"
proof -
  obtain ds where ds: "str_nat n = map digit_char ds" "ds \<noteq> []"
    "\<forall>d \<in> set ds. d < 10" "foldl (\<lambda>a d. 10 * a + d) 0 ds = n"
    using str_nat_digits by blast
  show ?thesis
    using strip_digits(2) [OF ds(2,3)] py_int_digits [OF ds(2,3)] by (simp add: ds(1,4))
qed

lemma py_int_latin1_space:
  "py_int (py_strip ([CHR 0xA0] @ ''42'' @ [CHR 0x85])) = Some 42"
  "py_int (py_strip ([CHR 0xA0] @ ''0'')) = Some 0"
  by (simp_all add: py_int_def py_strip_def is_space_def parse_nat_def digit_val_def)

subsection \<open>Files, reading the PID file, one pass of the loop\<close>

lemmas call_defs = emit_def os_path_exists_def os_remove_def write_file_def log2die_def
  log2warn_def log2quiet_def

lemmas parse_defs = py_int_def py_strip_def is_space_def parse_nat_def digit_val_def

lemma str_nat_examples:
  "str_nat 1 = ''1''" "str_nat 3 = ''3''" "str_nat 11 = ''11''" "str_nat 12 = ''12''"
  "str_nat 101 = ''101''"
  by code_simp+

lemma files_delpid: "files (delpid cfg w) = (files w)(pidfile cfg := None)"
  by (auto simp add: delpid_def call_defs)

lemma files_dellock:
  "files (dellock cfg w) = (case lockfile cfg of None \<Rightarrow> files w | Some l \<Rightarrow> (files w)(l := None))"
  by (auto simp add: dellock_def call_defs split: option.splits)

lemma delpid_world:
  "delpid cfg w =
     w\<lparr>files := (files w)(pidfile cfg := None),
       trace := trace w @
         (if files w (pidfile cfg) = None then [Exists (pidfile cfg) False]
          else [Exists (pidfile cfg) True, Remove (pidfile cfg)])\<rparr>"
  by (auto simp add: delpid_def call_defs fun_upd_idem)

lemma dellock_world:
  "dellock cfg w =
     (case lockfile cfg of
        None \<Rightarrow> w
      | Some l \<Rightarrow>
          w\<lparr>files := (files w)(l := None),
            trace := trace w @
              (if files w l = None then [Exists l False] else [Exists l True, Remove l])\<rparr>)"
  by (auto simp add: dellock_def call_defs fun_upd_idem split: option.splits)

lemma read_pid_absent:
  "files w p = None \<Longrightarrow> read_pid p w = (Returns None, w\<lparr>trace := trace w @ [ReadFile p]\<rparr>)"
  by (simp add: read_pid_def emit_def)

lemma read_pid_unparsable:
  "files w p = Some c \<Longrightarrow> py_int (py_strip c) = None \<Longrightarrow>
     read_pid p w = (Raises ValueError, w\<lparr>trace := trace w @ [ReadFile p]\<rparr>)"
  by (simp add: read_pid_def emit_def)

lemma read_pid_number:
  "files w p = Some c \<Longrightarrow> py_int (py_strip c) = Some n \<Longrightarrow>
     read_pid p w = (Returns (Some n), w\<lparr>trace := trace w @ [ReadFile p]\<rparr>)"
  by (simp add: read_pid_def emit_def)

lemma read_pid_world: "snd (read_pid p w) = w\<lparr>trace := trace w @ [ReadFile p]\<rparr>"
  by (simp add: read_pid_def emit_def split: option.splits)

lemma daemonize_returns:
  assumes "daemonize cfg f1 f2 w = (Returns (), w1)"
  shows "w1 = w\<lparr>files := (files w)(pidfile cfg \<mapsto> str_nat (self_pid w1) @ [CHR 0x0A]),
              self_pid := self_pid w1,
              trace := trace w @
                [Fork, Chdir ''/'', Setsid, Umask 0, Fork, Flush Stdout, Flush Stderr,
                 ToDevNull Stdin, ToDevNull Stdout, ToDevNull Stderr,
                 AtexitRegister (pidfile cfg), Getpid,
                 WriteFile (pidfile cfg) (str_nat (self_pid w1) @ [CHR 0x0A])]\<rparr>"
    and "(case f2 of ForkFails e \<Rightarrow> False | InParent c \<Rightarrow> c = 0 | InChild p \<Rightarrow> self_pid w1 = p)"
  using assms
  by (auto simp add: daemonize_def os_fork_def redirect_std_def call_defs Let_def
      split: fork_outcome.splits if_splits)

lemma os_kill_cases:
  "(\<exists>x. os_kill pid w = (Raises x, w\<lparr>trace := trace w @ [Kill pid (Some x)]\<rparr>) \<and>
        (x = OSError ESRCH \<longrightarrow> procs w pid = None)) \<or>
   os_kill pid w = (Returns (), w\<lparr>trace := trace w @ [Kill pid None]\<rparr>)"
  by (simp add: os_kill_def emit_def split: option.splits proc.splits)

lemma apply_action_trace: "trace (apply_action a w) = trace w"
  by (cases a) simp_all

lemma fold_actions_trace: "trace (fold apply_action as w) = trace w"
  by (induction as arbitrary: w) (simp_all add: apply_action_trace)

lemma time_sleep_trace: "trace (time_sleep env w) = trace w @ [Sleep]"
  by (simp add: time_sleep_def emit_def fold_actions_trace)

lemma apply_action_spares_proc: "spares_proc pid a \<Longrightarrow> procs (apply_action a w) pid = procs w pid"
  by (cases a) simp_all

lemma fold_actions_spare_proc:
  "list_all (spares_proc pid) as \<Longrightarrow> procs (fold apply_action as w) pid = procs w pid"
  by (induction as arbitrary: w) (simp_all add: apply_action_spares_proc)

lemma time_sleep_spares_proc:
  "list_all (spares_proc pid) (env (clock w)) \<Longrightarrow> procs (time_sleep env w) pid = procs w pid"
  by (simp add: time_sleep_def emit_def fold_actions_spare_proc)

lemma apply_action_spares_file:
  "spares_file l a \<Longrightarrow> files w l \<noteq> None \<Longrightarrow> files (apply_action a w) l \<noteq> None"
  by (cases a) simp_all

lemma fold_actions_spare_file:
  "list_all (spares_file l) as \<Longrightarrow> files w l \<noteq> None \<Longrightarrow> files (fold apply_action as w) l \<noteq> None"
proof (induction as arbitrary: w)
  case Nil
  then show ?case by simp
next
  case (Cons a as)
  from Cons.prems(1) have a: "spares_file l a" and as: "list_all (spares_file l) as"
    by simp_all
  have "files (apply_action a w) l \<noteq> None"
    using a Cons.prems(2) by (rule apply_action_spares_file)
  with as have "files (fold apply_action as (apply_action a w)) l \<noteq> None"
    by (rule Cons.IH)
  then show ?case by simp
qed

lemma time_sleep_spares_file:
  "list_all (spares_file l) (env (clock w)) \<Longrightarrow> files w l \<noteq> None \<Longrightarrow>
     files (time_sleep env w) l \<noteq> None"
  using fold_actions_spare_file [of l "env (clock w)" w]
  by (simp add: time_sleep_def emit_def)

lemma stop_body_lock:
  assumes "lockfile cfg = Some l"
  shows "(\<exists>x w1. stop_body cfg env pid w = (Some x, w1) \<and>
            trace w1 = trace w @ [Sleep, Exists l False, Kill pid (Some x)]) \<or>
         (\<exists>w1. stop_body cfg env pid w = (None, w1) \<and>
            (trace w1 = trace w @ [Sleep, Exists l True] \<or>
             trace w1 = trace w @ [Sleep, Exists l False, Kill pid None, Sleep]))"
proof -
  let ?w1 = "time_sleep env w"
  let ?w2 = "emit (Exists l (files ?w1 l \<noteq> None)) ?w1"
  show ?thesis
  proof (cases "files ?w1 l \<noteq> None")
    case True
    then show ?thesis
      using assms by (simp add: stop_body_def os_path_exists_def emit_def time_sleep_trace)
  next
    case False
    from os_kill_cases [of pid ?w2] show ?thesis
    proof
      assume "\<exists>x. os_kill pid ?w2 = (Raises x, ?w2\<lparr>trace := trace ?w2 @ [Kill pid (Some x)]\<rparr>) \<and>
        (x = OSError ESRCH \<longrightarrow> procs ?w2 pid = None)"
      then obtain x where "os_kill pid ?w2 = (Raises x, ?w2\<lparr>trace := trace ?w2 @ [Kill pid (Some x)]\<rparr>)"
        by blast
      with False assms show ?thesis
        by (simp add: stop_body_def os_path_exists_def emit_def time_sleep_trace)
    next
      assume "os_kill pid ?w2 = (Returns (), ?w2\<lparr>trace := trace ?w2 @ [Kill pid None]\<rparr>)"
      with False assms show ?thesis
        by (simp add: stop_body_def os_path_exists_def emit_def time_sleep_trace)
    qed
  qed
qed

lemma stop_body_plain:
  assumes "lockfile cfg = None"
  shows "(\<exists>x w1. stop_body cfg env pid w = (Some x, w1) \<and>
            trace w1 = trace w @ [Kill pid (Some x)]) \<or>
         (\<exists>w1. stop_body cfg env pid w = (None, w1) \<and>
            trace w1 = trace w @ [Kill pid None, Sleep])"
  using os_kill_cases [of pid w] assms
  by (auto simp add: stop_body_def time_sleep_trace)

subsection \<open>The loop of \<^verbatim>\<open>stop\<close>\<close>

lemma deferred_append:
  "deferred l a b xs \<Longrightarrow> (\<And>c d. deferred l c d ys) \<Longrightarrow> deferred l a b (xs @ ys)"
  by (induction xs arbitrary: a b) simp_all

lemma deferred_no_kill: "list_all (\<lambda>e. \<not> is_kill e) xs \<Longrightarrow> deferred l a b xs"
  by (induction xs arbitrary: a b) simp_all

lemma stop_loop_deferred:
  assumes "lockfile cfg = Some l"
  shows "\<exists>evs. trace (snd (stop_loop n cfg env pid w)) = trace w @ evs \<and>
           (\<forall>a b. deferred l a b evs)"
proof (induction n arbitrary: w)
  case 0
  show ?case by simp
next
  case (Suc n)
  from stop_body_lock [OF assms, of env pid w] show ?case
  proof (elim disjE exE conjE)
    fix x w1
    assume "stop_body cfg env pid w = (Some x, w1)"
      and "trace w1 = trace w @ [Sleep, Exists l False, Kill pid (Some x)]"
    then show ?thesis by simp
  next
    fix w1
    assume body: "stop_body cfg env pid w = (None, w1)"
      and tr: "trace w1 = trace w @ [Sleep, Exists l True]"
    from Suc.IH [of w1] obtain evs
      where evs: "trace (snd (stop_loop n cfg env pid w1)) = trace w1 @ evs"
        "\<forall>a b. deferred l a b evs"
      by blast
    have "\<forall>a b. deferred l a b ([Sleep, Exists l True] @ evs)"
      using evs(2) by simp
    with body tr evs(1) show ?thesis
      by (intro exI [of _ "[Sleep, Exists l True] @ evs"]) simp
  next
    fix w1
    assume body: "stop_body cfg env pid w = (None, w1)"
      and tr: "trace w1 = trace w @ [Sleep, Exists l False, Kill pid None, Sleep]"
    from Suc.IH [of w1] obtain evs
      where evs: "trace (snd (stop_loop n cfg env pid w1)) = trace w1 @ evs"
        "\<forall>a b. deferred l a b evs"
      by blast
    have "\<forall>a b. deferred l a b ([Sleep, Exists l False, Kill pid None, Sleep] @ evs)"
      using evs(2) by simp
    with body tr evs(1) show ?thesis
      by (intro exI [of _ "[Sleep, Exists l False, Kill pid None, Sleep] @ evs"]) simp
  qed
qed

lemma stop_body_raises:
  assumes "stop_body cfg env pid w = (Some x, w1)"
  shows "(\<exists>tr. trace w1 = trace w @ tr @ [Kill pid (Some x)]) \<and>
         (x = OSError ESRCH \<longrightarrow> procs w1 pid = None)"
proof (cases "lockfile cfg")
  case None
  with assms os_kill_cases [of pid w] show ?thesis
    by (auto simp add: stop_body_def)
next
  case (Some l)
  let ?w1 = "time_sleep env w"
  let ?w2 = "emit (Exists l (files ?w1 l \<noteq> None)) ?w1"
  from assms Some have gone: "files ?w1 l = None"
    by (auto simp add: stop_body_def os_path_exists_def split: if_splits)
  with assms Some have kill: "os_kill pid ?w2 = (Raises x, w1)"
    by (auto simp add: stop_body_def os_path_exists_def split: prod.splits result.splits)
  have tr: "trace ?w2 = trace w @ [Sleep, Exists l False]"
    using gone by (simp add: emit_def time_sleep_trace)
  from kill os_kill_cases [of pid ?w2] have
    w1: "w1 = ?w2\<lparr>trace := trace ?w2 @ [Kill pid (Some x)]\<rparr>"
    and gone_proc: "x = OSError ESRCH \<longrightarrow> procs ?w2 pid = None"
    by auto
  from w1 tr have "trace w1 = trace w @ [Sleep, Exists l False] @ [Kill pid (Some x)]"
    by simp
  moreover from w1 gone_proc have "x = OSError ESRCH \<longrightarrow> procs w1 pid = None"
    by simp
  ultimately show ?thesis
    by blast
qed

lemma stop_body_trace: "\<exists>tr. trace (snd (stop_body cfg env pid w)) = trace w @ tr"
proof (cases "lockfile cfg")
  case None
  from stop_body_plain [OF None, of env pid w] show ?thesis
    by auto
next
  case (Some l)
  from stop_body_lock [OF Some, of env pid w] show ?thesis
    by auto
qed

lemma stop_loop_raises:
  "stop_loop n cfg env pid w = (Some x, w1) \<Longrightarrow>
     (\<exists>tr. trace w1 = trace w @ tr @ [Kill pid (Some x)]) \<and>
     (x = OSError ESRCH \<longrightarrow> procs w1 pid = None)"
proof (induction n arbitrary: w)
  case 0
  then show ?case by simp
next
  case (Suc n)
  obtain r w' where body: "stop_body cfg env pid w = (r, w')"
    by (cases "stop_body cfg env pid w")
  show ?case
  proof (cases r)
    case (Some y)
    with body Suc.prems have "stop_body cfg env pid w = (Some x, w1)"
      by simp
    then show ?thesis
      by (rule stop_body_raises)
  next
    case None
    with body Suc.prems have "stop_loop n cfg env pid w' = (Some x, w1)"
      by simp
    from Suc.IH [OF this] obtain tr where
      tr: "trace w1 = trace w' @ tr @ [Kill pid (Some x)]"
      and gone: "x = OSError ESRCH \<longrightarrow> procs w1 pid = None"
      by blast
    from stop_body_trace [of cfg env pid w] body obtain tr' where "trace w' = trace w @ tr'"
      by auto
    with tr have "trace w1 = trace w @ (tr' @ tr) @ [Kill pid (Some x)]"
      by simp
    with gone show ?thesis
      by blast
  qed
qed

lemma found_no_such_process: "py_find (str_args ESRCH) ''No such process'' = 5"
  by code_simp

lemma found_not_permitted: "py_find (str_args EPERM) ''No such process'' = - 1"
  by code_simp

lemma stop_with_pid:
  assumes "files w (pidfile cfg) = Some c" and "py_int (py_strip c) = Some pid" and "pid \<noteq> 0"
  shows "stop fuel cfg env w =
     (case stop_loop fuel cfg env pid (w\<lparr>trace := trace w @ [ReadFile (pidfile cfg)]\<rparr>) of
        (None, w2) \<Rightarrow> None
      | (Some x, w2) \<Rightarrow>
          (case stop_except cfg x w2 of
             (Raises y, w3) \<Rightarrow> Some (Raises y, w3)
           | (Returns u, w3) \<Rightarrow>
               Some (Returns (),
                 log2quiet 1071 (''Daemon Stopped - PID file: '' @ pidfile cfg)
                   (dellock cfg (delpid cfg w3)))))"
  using assms by (simp add: stop_def read_pid_number)

lemma delpid_quiet:
  "\<exists>post. trace (delpid cfg w) = trace w @ post \<and> list_all (\<lambda>e. \<not> is_kill e) post"
  by (simp add: delpid_world)

lemma dellock_quiet:
  "\<exists>post. trace (dellock cfg w) = trace w @ post \<and> list_all (\<lambda>e. \<not> is_kill e) post"
  by (simp add: dellock_world split: option.splits)

lemma cleanup_quiet:
  "\<exists>post. trace (dellock cfg (delpid cfg w)) = trace w @ post \<and>
     list_all (\<lambda>e. \<not> is_kill e) post"
proof -
  obtain p1 where p1: "trace (delpid cfg w) = trace w @ p1" "list_all (\<lambda>e. \<not> is_kill e) p1"
    using delpid_quiet by blast
  obtain p2 where p2: "trace (dellock cfg (delpid cfg w)) = trace (delpid cfg w) @ p2"
    "list_all (\<lambda>e. \<not> is_kill e) p2"
    using dellock_quiet by blast
  from p1 p2 show ?thesis
    by (intro exI [of _ "p1 @ p2"]) simp
qed

lemma stop_except_quiet:
  "\<exists>post. trace (snd (stop_except cfg x w)) = trace w @ post \<and>
     list_all (\<lambda>e. \<not> is_kill e) post"
proof (cases "\<exists>e. x = OSError e \<and> py_find (str_args e) ''No such process'' > 0")
  case True
  then have "snd (stop_except cfg x w) = dellock cfg (delpid cfg w)"
    by (auto simp add: stop_except_def)
  then show ?thesis
    using cleanup_quiet [of cfg w] by simp
next
  case False
  then show ?thesis
    by (cases x) (auto simp add: stop_except_def log2die_def emit_def)
qed

lemma after_loop_quiet:
  assumes "(case stop_except cfg x w2 of
             (Raises y, w3) \<Rightarrow> Some (Raises y, w3)
           | (Returns u, w3) \<Rightarrow>
               Some (Returns (),
                 log2quiet 1071 msg (dellock cfg (delpid cfg w3)))) = Some (r, w')"
  shows "\<exists>post. trace w' = trace w2 @ post \<and> list_all (\<lambda>e. \<not> is_kill e) post"
proof -
  obtain q w3 where ex: "stop_except cfg x w2 = (q, w3)"
    by (cases "stop_except cfg x w2")
  obtain p1 where p1: "trace w3 = trace w2 @ p1" "list_all (\<lambda>e. \<not> is_kill e) p1"
    using stop_except_quiet [of cfg x w2] ex by auto
  show ?thesis
  proof (cases q)
    case (Raises y)
    with assms ex have "w' = w3" by simp
    with p1 show ?thesis by blast
  next
    case (Returns u)
    with assms ex have w': "w' = log2quiet 1071 msg (dellock cfg (delpid cfg w3))"
      by simp
    obtain p2 where p2: "trace (dellock cfg (delpid cfg w3)) = trace w3 @ p2"
      "list_all (\<lambda>e. \<not> is_kill e) p2"
      using cleanup_quiet by blast
    from p1 p2 w' show ?thesis
      by (intro exI [of _ "p1 @ p2 @ [Log Quiet 1071 msg]"]) (simp add: log2quiet_def emit_def)
  qed
qed

lemma stop_trace_deferred:
  assumes lock: "lockfile cfg = Some l" and ret: "stop fuel cfg env w = Some (r, w')"
  shows "\<exists>evs. trace w' = trace w @ evs \<and> deferred l None None evs"
proof -
  let ?p = "pidfile cfg"
  let ?w1 = "w\<lparr>trace := trace w @ [ReadFile ?p]\<rparr>"
  consider (absent) "files w ?p = None"
    | (junk) c where "files w ?p = Some c" "py_int (py_strip c) = None"
    | (zero) c where "files w ?p = Some c" "py_int (py_strip c) = Some 0"
    | (found) c pid where "files w ?p = Some c" "py_int (py_strip c) = Some pid" "pid \<noteq> 0"
    by (cases "files w ?p"; cases "py_int (py_strip (the (files w ?p)))") auto
  then show ?thesis
  proof cases
    case absent
    with ret have "trace w' = trace w @ [ReadFile ?p, Log Warn 1063
        (''PID file: '' @ ?p @ '' does not exist. Daemon not running?'')]"
      by (auto simp add: stop_def read_pid_absent log2warn_def emit_def)
    then show ?thesis by simp
  next
    case junk
    with ret have "trace w' = trace w @ [ReadFile ?p]"
      by (auto simp add: stop_def read_pid_unparsable)
    then show ?thesis by simp
  next
    case zero
    with ret have "trace w' = trace w @ [ReadFile ?p, Log Warn 1063
        (''PID file: '' @ ?p @ '' does not exist. Daemon not running?'')]"
      by (auto simp add: stop_def read_pid_number log2warn_def emit_def)
    then show ?thesis by simp
  next
    case found
    obtain q w2 where loop: "stop_loop fuel cfg env pid ?w1 = (q, w2)"
      by (cases "stop_loop fuel cfg env pid ?w1")
    from stop_loop_deferred [OF lock, of fuel env pid ?w1] loop obtain evs where
      evs: "trace w2 = trace ?w1 @ evs" "\<forall>a b. deferred l a b evs"
      by auto
    from ret loop stop_with_pid [OF found, of fuel env] obtain x where q: "q = Some x"
      by (cases q) auto
    with ret loop stop_with_pid [OF found, of fuel env] after_loop_quiet [where r = r and w' = w' and x = x and cfg = cfg]
    obtain post where post: "trace w' = trace w2 @ post" "list_all (\<lambda>e. \<not> is_kill e) post"
      by auto
    have "deferred l None (Some (ReadFile ?p)) (evs @ post)"
      using evs(2) deferred_no_kill [OF post(2)] by (intro deferred_append) auto
    then have "deferred l None None (ReadFile ?p # evs @ post)"
      by simp
    moreover have "trace w' = trace w @ (ReadFile ?p # evs @ post)"
      using evs(1) post(1) by simp
    ultimately show ?thesis
      by blast
  qed
qed

lemma emit_fields: "procs (emit e w) = procs w" "files (emit e w) = files w"
  by (simp_all add: emit_def)

lemma stop_body_alive:
  assumes alive: "procs w pid = Some Alive"
    and range: "- 2147483648 \<le> pid" "pid \<le> 2147483647"
    and env: "\<forall>t. list_all (spares_proc pid) (env t)"
  shows "\<exists>w1. stop_body cfg env pid w = (None, w1) \<and> procs w1 pid = Some Alive"
proof -
  have sleep: "procs (time_sleep env v) pid = procs v pid" for v
    using env by (simp add: time_sleep_spares_proc)
  have kill: "os_kill pid v = (Returns (), emit (Kill pid None) v)" if "procs v pid = Some Alive" for v
    using that range by (simp add: os_kill_def)
  show ?thesis
  proof (cases "lockfile cfg")
    case None
    then show ?thesis
      using alive by (simp add: stop_body_def kill sleep emit_fields)
  next
    case (Some l)
    let ?w1 = "time_sleep env w"
    have "procs (emit (Exists l (files ?w1 l \<noteq> None)) ?w1) pid = Some Alive"
      using alive by (simp add: emit_fields sleep)
    then show ?thesis
      using Some alive by (simp add: stop_body_def os_path_exists_def kill sleep emit_fields)
  qed
qed

lemma stop_loop_alive:
  assumes range: "- 2147483648 \<le> pid" "pid \<le> 2147483647"
    and env: "\<forall>t. list_all (spares_proc pid) (env t)"
  shows "procs w pid = Some Alive \<Longrightarrow> fst (stop_loop n cfg env pid w) = None"
proof (induction n arbitrary: w)
  case 0
  show ?case by simp
next
  case (Suc n)
  from stop_body_alive [OF Suc.prems range env, of cfg] obtain w1 where
    "stop_body cfg env pid w = (None, w1)" "procs w1 pid = Some Alive"
    by blast
  then show ?case
    using Suc.IH [of w1] by simp
qed

lemma stop_body_locked:
  assumes lock: "lockfile cfg = Some l" and there: "files w l \<noteq> None"
    and env: "\<forall>t. list_all (spares_file l) (env t)"
  shows "\<exists>w1. stop_body cfg env pid w = (None, w1) \<and> files w1 l \<noteq> None"
proof -
  have "files (time_sleep env w) l \<noteq> None"
    using env there by (simp add: time_sleep_spares_file)
  then show ?thesis
    using lock by (auto simp add: stop_body_def os_path_exists_def emit_fields)
qed

lemma stop_loop_locked:
  assumes lock: "lockfile cfg = Some l" and env: "\<forall>t. list_all (spares_file l) (env t)"
  shows "files w l \<noteq> None \<Longrightarrow> fst (stop_loop n cfg env pid w) = None"
proof (induction n arbitrary: w)
  case 0
  show ?case by simp
next
  case (Suc n)
  from stop_body_locked [OF lock Suc.prems env, of pid] obtain w1 where
    "stop_body cfg env pid w = (None, w1)" "files w1 l \<noteq> None"
    by blast
  then show ?case
    using Suc.IH [of w1] by simp
qed

lemma stop_body_raises_unlocked:
  assumes "stop_body cfg env pid w = (Some x, w1)" and "lockfile cfg = Some l"
  shows "files w1 l = None"
proof -
  let ?w1 = "time_sleep env w"
  let ?w2 = "emit (Exists l (files ?w1 l \<noteq> None)) ?w1"
  from assms have gone: "files ?w1 l = None"
    by (auto simp add: stop_body_def os_path_exists_def split: if_splits)
  with assms have "os_kill pid ?w2 = (Raises x, w1)"
    by (auto simp add: stop_body_def os_path_exists_def split: prod.splits result.splits)
  with os_kill_cases [of pid ?w2] have "w1 = ?w2\<lparr>trace := trace ?w2 @ [Kill pid (Some x)]\<rparr>"
    by auto
  then have "files w1 = files ?w1"
    by (simp add: emit_def)
  with gone show ?thesis
    by simp
qed

lemma stop_loop_raises_unlocked:
  "stop_loop n cfg env pid w = (Some x, w1) \<Longrightarrow> lockfile cfg = Some l \<Longrightarrow> files w1 l = None"
proof (induction n arbitrary: w)
  case 0
  then show ?case by simp
next
  case (Suc n)
  obtain r w' where body: "stop_body cfg env pid w = (r, w')"
    by (cases "stop_body cfg env pid w")
  show ?case
  proof (cases r)
    case (Some y)
    with body Suc.prems(1) have "stop_body cfg env pid w = (Some x, w1)"
      by simp
    then show ?thesis
      using Suc.prems(2) by (rule stop_body_raises_unlocked)
  next
    case None
    with body Suc.prems(1) have "stop_loop n cfg env pid w' = (Some x, w1)"
      by simp
    then show ?thesis
      using Suc.prems(2) by (rule Suc.IH)
  qed
qed

lemma handler_no_such_process:
  "stop_except cfg (OSError ESRCH) v =
     (Returns (),
      v\<lparr>files :=
          (case lockfile cfg of
             None \<Rightarrow> (files v)(pidfile cfg := None)
           | Some l \<Rightarrow> (files v)(pidfile cfg := None, l := None)),
        trace := trace v @
          (if files v (pidfile cfg) = None then [Exists (pidfile cfg) False]
           else [Exists (pidfile cfg) True, Remove (pidfile cfg)]) @
          (case lockfile cfg of
             None \<Rightarrow> []
           | Some l \<Rightarrow>
               if l = pidfile cfg \<or> files v l = None then [Exists l False]
               else [Exists l True, Remove l])\<rparr>)"
  by (auto simp add: stop_except_def found_no_such_process delpid_world dellock_world
      split: option.splits)

subsection \<open>Evaluation of the examples\<close>

lemmas world_defs = world0_def with_file_def with_proc_def world_locked_def cfg_plain_def
  cfg_lock_def idle_def unlock_later_def

lemmas step_defs = stop_body_def time_sleep_def os_kill_def

lemma locked_loop_trace:
  "trace (snd (stop_loop 3 cfg_lock unlock_later 42 (with_proc 42 Alive world_locked))) =
     [Sleep, Exists ''/tmp/x.lock'' True, Sleep, Exists ''/tmp/x.lock'' False, Kill 42 None, Sleep,
      Sleep, Exists ''/tmp/x.lock'' False, Kill 42 None, Sleep]"
  by (simp add: numeral_3_eq_3 step_defs call_defs world_defs)

lemmas more_defs = world_pid_def world_pid_stopped_def

section \<open>The claims\<close>

text \<open>
  Claim C6. \<^verbatim>\<open>status\<close> always returns normally. It makes one call, the existence check
  of the PID file, and prints that the daemon is running exactly when the file exists;
  it never opens the file, so what the file holds plays no part.
\<close>

theorem status_reports_pidfile_existence:
  "status cfg w =
     (Returns (),
      w\<lparr>trace := trace w @
         [Exists (pidfile cfg) (files w (pidfile cfg) \<noteq> None),
          Print (if files w (pidfile cfg) \<noteq> None then ''Daemon is running''
                 else ''Daemon is stopped'')]\<rparr>)"
  by (simp add: status_def call_defs)

theorem status_witness:
  "status cfg_plain (with_file ''/tmp/x.pid'' ''not a number'' world0) =
     (Returns (),
      (with_file ''/tmp/x.pid'' ''not a number'' world0)
        \<lparr>trace := [Exists ''/tmp/x.pid'' True, Print ''Daemon is running'']\<rparr>)"
  using status_reports_pidfile_existence
    [of cfg_plain "with_file ''/tmp/x.pid'' ''not a number'' world0"]
  by (simp add: cfg_plain_def with_file_def world0_def)

text \<open>
  Claim C10. \<^verbatim>\<open>delpid\<close> and \<^verbatim>\<open>dellock\<close> are functions from worlds to worlds, with no
  exception among their results. Each leaves its file absent; on an absent file, and for
  \<^verbatim>\<open>dellock\<close> without a configured lock file, nothing changes but the trace, which gains
  at most the existence check. A second call changes no file, and neither does the
  second pair of calls that \<^verbatim>\<open>stop\<close> makes after its handler has made the first.
\<close>

theorem delpid_dellock_idempotent:
  "files (delpid cfg w) = (files w)(pidfile cfg := None) \<and>
   (files w (pidfile cfg) = None \<longrightarrow>
      delpid cfg w = w\<lparr>trace := trace w @ [Exists (pidfile cfg) False]\<rparr>) \<and>
   delpid cfg (delpid cfg w) =
     (delpid cfg w)\<lparr>trace := trace (delpid cfg w) @ [Exists (pidfile cfg) False]\<rparr> \<and>
   files (dellock cfg w) =
     (case lockfile cfg of None \<Rightarrow> files w | Some l \<Rightarrow> (files w)(l := None)) \<and>
   (lockfile cfg = None \<longrightarrow> dellock cfg w = w) \<and>
   (\<forall>l. lockfile cfg = Some l \<and> files w l = None \<longrightarrow>
      dellock cfg w = w\<lparr>trace := trace w @ [Exists l False]\<rparr>) \<and>
   files (dellock cfg (dellock cfg w)) = files (dellock cfg w) \<and>
   files (dellock cfg (delpid cfg (dellock cfg (delpid cfg w)))) =
     files (dellock cfg (delpid cfg w))"
  by (auto simp add: delpid_world dellock_world fun_upd_idem split: option.splits)

theorem delpid_dellock_idempotent_witness:
  "files world0 (pidfile cfg_lock) = None \<and>
   delpid cfg_lock world0 = world0\<lparr>trace := [Exists ''/tmp/x.pid'' False]\<rparr> \<and>
   lockfile cfg_plain = None \<and>
   dellock cfg_plain world0 = world0 \<and>
   lockfile cfg_lock = Some ''/tmp/x.lock'' \<and>
   files world0 ''/tmp/x.lock'' = None \<and>
   dellock cfg_lock world0 = world0\<lparr>trace := [Exists ''/tmp/x.lock'' False]\<rparr>"
  using delpid_dellock_idempotent [of cfg_lock world0]
    delpid_dellock_idempotent [of cfg_plain world0]
  by (simp add: cfg_lock_def cfg_plain_def world0_def)

text \<open>
  Claim C1, as amended. When the PID file is absent, \<^verbatim>\<open>stop\<close> logs warning 1063 and
  returns; the world is unchanged but for the trace, which gains the attempt to read the
  file and the warning, so no signal is sent and no file is touched. When the file holds
  text that \<^verbatim>\<open>int\<close> rejects, the \<^verbatim>\<open>ValueError\<close> leaves \<^verbatim>\<open>stop\<close>: there is no warning and
  no normal return, and again no signal and no change of the files.
\<close>

theorem stop_without_pid:
  "(files w (pidfile cfg) = None \<longrightarrow>
      stop fuel cfg env w =
        Some (Returns (),
          w\<lparr>trace := trace w @
            [ReadFile (pidfile cfg),
             Log Warn 1063
               (''PID file: '' @ pidfile cfg @ '' does not exist. Daemon not running?'')]\<rparr>)) \<and>
   (\<forall>c. files w (pidfile cfg) = Some c \<and> py_int (py_strip c) = None \<longrightarrow>
      stop fuel cfg env w =
        Some (Raises ValueError, w\<lparr>trace := trace w @ [ReadFile (pidfile cfg)]\<rparr>))"
  by (simp add: stop_def read_pid_absent read_pid_unparsable log2warn_def emit_def)

theorem stop_without_pid_witness:
  "files world0 (pidfile cfg_lock) = None \<and>
   stop 0 cfg_lock idle world0 =
     Some (Returns (),
       world0\<lparr>trace :=
         [ReadFile ''/tmp/x.pid'',
          Log Warn 1063 ''PID file: /tmp/x.pid does not exist. Daemon not running?'']\<rparr>) \<and>
   files (with_file ''/tmp/x.pid'' ''abc'' world0) (pidfile cfg_lock) = Some ''abc'' \<and>
   py_int (py_strip ''abc'') = None \<and>
   stop 0 cfg_lock idle (with_file ''/tmp/x.pid'' ''abc'' world0) =
     Some (Raises ValueError,
       (with_file ''/tmp/x.pid'' ''abc'' world0)\<lparr>trace := [ReadFile ''/tmp/x.pid'']\<rparr>)"
  using stop_without_pid [of world0 cfg_lock 0 idle]
    stop_without_pid [of "with_file ''/tmp/x.pid'' ''abc'' world0" cfg_lock 0 idle]
  by (simp add: world0_def cfg_lock_def with_file_def parse_defs)

theorem stop_unparsable_counterexample:
  "stop 1 cfg_plain idle (with_file ''/tmp/x.pid'' ''abc'' world0) =
     Some (Raises ValueError,
       (with_file ''/tmp/x.pid'' ''abc'' world0)\<lparr>trace := [ReadFile ''/tmp/x.pid'']\<rparr>)"
  by (simp add: stop_def read_pid_def emit_def world0_def cfg_plain_def with_file_def parse_defs)

text \<open>
  Claim C2, as amended. When the PID file holds an integer other than 0, \<^verbatim>\<open>start\<close>
  ends in \<^verbatim>\<open>log2die\<close> with code 1062; when it holds text that \<^verbatim>\<open>int\<close> rejects, the
  \<^verbatim>\<open>ValueError\<close> leaves \<^verbatim>\<open>start\<close>. In both cases the trace gains nothing but the read
  (and the fatal message): no fork, no write of the PID file, no call of \<^verbatim>\<open>run\<close>, and
  the files are as before. A file that holds the integer 0 does not stop \<^verbatim>\<open>start\<close>.
\<close>

theorem start_refuses_pid:
  "(\<forall>c n. files w (pidfile cfg) = Some c \<and> py_int (py_strip c) = Some n \<and> n \<noteq> 0 \<longrightarrow>
      start cfg run f1 f2 w =
        Some (Raises (Fatal 1062
                (''PID file: '' @ pidfile cfg @ '' already exists. Daemon already running?'')),
          w\<lparr>trace := trace w @
            [ReadFile (pidfile cfg),
             Log Die 1062
               (''PID file: '' @ pidfile cfg @ '' already exists. Daemon already running?'')]\<rparr>)) \<and>
   (\<forall>c. files w (pidfile cfg) = Some c \<and> py_int (py_strip c) = None \<longrightarrow>
      start cfg run f1 f2 w =
        Some (Raises ValueError, w\<lparr>trace := trace w @ [ReadFile (pidfile cfg)]\<rparr>))"
  by (auto simp add: start_def before_run_def read_pid_number read_pid_unparsable truthy_def
      log2die_def emit_def)

theorem start_refuses_pid_witness:
  "files (with_file ''/tmp/x.pid'' ''17'' world0) (pidfile cfg_plain) = Some ''17'' \<and>
   py_int (py_strip ''17'') = Some 17 \<and> (17 :: int) \<noteq> 0 \<and>
   start cfg_plain run_returns (InChild 100) (InChild 101)
       (with_file ''/tmp/x.pid'' ''17'' world0) =
     Some (Raises (Fatal 1062 ''PID file: /tmp/x.pid already exists. Daemon already running?''),
       (with_file ''/tmp/x.pid'' ''17'' world0)
         \<lparr>trace :=
            [ReadFile ''/tmp/x.pid'',
             Log Die 1062 ''PID file: /tmp/x.pid already exists. Daemon already running?'']\<rparr>) \<and>
   files (with_file ''/tmp/x.pid'' ([CHR 0xA0] @ ''17'') world0) (pidfile cfg_plain) =
     Some ([CHR 0xA0] @ ''17'') \<and>
   py_int (py_strip ([CHR 0xA0] @ ''17'')) = Some 17 \<and>
   start cfg_plain run_returns (InChild 100) (InChild 101)
       (with_file ''/tmp/x.pid'' ([CHR 0xA0] @ ''17'') world0) =
     Some (Raises (Fatal 1062 ''PID file: /tmp/x.pid already exists. Daemon already running?''),
       (with_file ''/tmp/x.pid'' ([CHR 0xA0] @ ''17'') world0)
         \<lparr>trace :=
            [ReadFile ''/tmp/x.pid'',
             Log Die 1062 ''PID file: /tmp/x.pid already exists. Daemon already running?'']\<rparr>) \<and>
   files (with_file ''/tmp/x.pid'' ''17 18'' world0) (pidfile cfg_plain) = Some ''17 18'' \<and>
   py_int (py_strip ''17 18'') = None \<and>
   start cfg_plain run_returns (InChild 100) (InChild 101)
       (with_file ''/tmp/x.pid'' ''17 18'' world0) =
     Some (Raises ValueError,
       (with_file ''/tmp/x.pid'' ''17 18'' world0)\<lparr>trace := [ReadFile ''/tmp/x.pid'']\<rparr>)"
  using start_refuses_pid
      [of "with_file ''/tmp/x.pid'' ''17'' world0" cfg_plain run_returns "InChild 100" "InChild 101"]
    start_refuses_pid
      [of "with_file ''/tmp/x.pid'' ''17 18'' world0" cfg_plain run_returns "InChild 100" "InChild 101"]
    start_refuses_pid
      [of "with_file ''/tmp/x.pid'' ([CHR 0xA0] @ ''17'') world0" cfg_plain run_returns
        "InChild 100" "InChild 101"]
  by (simp add: world0_def cfg_plain_def with_file_def parse_defs)

theorem start_zero_pid_counterexample:
  "start cfg_plain run_returns (InChild 100) (InChild 101)
       (with_file ''/tmp/x.pid'' ''0'' world0) =
     Some (Returns (),
       (with_file ''/tmp/x.pid'' ''101\<newline>'' world0)
         \<lparr>self_pid := 101,
          trace :=
            [ReadFile ''/tmp/x.pid'', Fork, Chdir ''/'', Setsid, Umask 0, Fork,
             Flush Stdout, Flush Stderr, ToDevNull Stdin, ToDevNull Stdout, ToDevNull Stderr,
             AtexitRegister ''/tmp/x.pid'', Getpid, WriteFile ''/tmp/x.pid'' ''101\<newline>'',
             Log Quiet 1070 ''Daemon Started - PID file: /tmp/x.pid'', CallRun]\<rparr>)"
  by (simp add: start_def before_run_def daemonize_def os_fork_def redirect_std_def read_pid_def
      truthy_def run_returns_def call_defs world0_def cfg_plain_def with_file_def parse_defs
      str_nat_examples)

text \<open>
  Claim C5. Whenever \<^verbatim>\<open>start\<close> reaches the call of \<^verbatim>\<open>run\<close>, the calls made up to that
  point are, in this order: the read of the PID file, the first fork, \<^verbatim>\<open>chdir\<close>,
  \<^verbatim>\<open>setsid\<close>, \<^verbatim>\<open>umask\<close>, the second fork, the flushes and the redirection of the three
  standard streams, the registration of the exit hook, \<^verbatim>\<open>getpid\<close>, the write of the PID
  file and the success message; \<^verbatim>\<open>run\<close> is called after them. The file then holds the
  decimal identifier of the process that goes on to \<^verbatim>\<open>run\<close>, which is the child of the
  second fork, followed by a newline, and reading it back as \<^verbatim>\<open>start\<close> and \<^verbatim>\<open>stop\<close> do
  gives that identifier, a natural number.
\<close>

theorem start_writes_pid_before_run:
  assumes "before_run cfg f1 f2 w = (Returns (), w1)"
  shows "trace w1 = trace w @
           [ReadFile (pidfile cfg), Fork, Chdir ''/'', Setsid, Umask 0, Fork,
            Flush Stdout, Flush Stderr, ToDevNull Stdin, ToDevNull Stdout, ToDevNull Stderr,
            AtexitRegister (pidfile cfg), Getpid,
            WriteFile (pidfile cfg) (str_nat (self_pid w1) @ [CHR 0x0A]),
            Log Quiet 1070 (''Daemon Started - PID file: '' @ pidfile cfg)] \<and>
         files w1 = (files w)(pidfile cfg \<mapsto> str_nat (self_pid w1) @ [CHR 0x0A]) \<and>
         (case f2 of ForkFails e \<Rightarrow> False | InParent c \<Rightarrow> c = 0 | InChild p \<Rightarrow> self_pid w1 = p) \<and>
         fst (read_pid (pidfile cfg) w1) = Returns (Some (int (self_pid w1))) \<and>
         start cfg run f1 f2 w = run (emit CallRun w1)"
proof -
  obtain r w0 where rd: "read_pid (pidfile cfg) w = (r, w0)"
    by (cases "read_pid (pidfile cfg) w")
  then have w0: "w0 = w\<lparr>trace := trace w @ [ReadFile (pidfile cfg)]\<rparr>"
    using read_pid_world [of "pidfile cfg" w] by simp
  from assms rd obtain w2 where dz: "daemonize cfg f1 f2 w0 = (Returns (), w2)"
    and w1: "w1 = log2quiet 1070 (''Daemon Started - PID file: '' @ pidfile cfg) w2"
    by (auto simp add: before_run_def log2die_def split: result.splits if_splits prod.splits)
  have pid: "self_pid w1 = self_pid w2"
    by (simp add: w1 log2quiet_def emit_def)
  note dw = daemonize_returns [OF dz]
  have tr: "trace w1 = trace w2 @ [Log Quiet 1070 (''Daemon Started - PID file: '' @ pidfile cfg)]"
    by (simp add: w1 log2quiet_def emit_def)
  have fl: "files w1 = files w2"
    by (simp add: w1 log2quiet_def emit_def)
  have "trace w2 = trace w0 @
      [Fork, Chdir ''/'', Setsid, Umask 0, Fork, Flush Stdout, Flush Stderr,
       ToDevNull Stdin, ToDevNull Stdout, ToDevNull Stderr,
       AtexitRegister (pidfile cfg), Getpid,
       WriteFile (pidfile cfg) (str_nat (self_pid w2) @ [CHR 0x0A])]"
    by (subst dw(1)) simp
  then have c1: "trace w1 = trace w @
           [ReadFile (pidfile cfg), Fork, Chdir ''/'', Setsid, Umask 0, Fork,
            Flush Stdout, Flush Stderr, ToDevNull Stdin, ToDevNull Stdout, ToDevNull Stderr,
            AtexitRegister (pidfile cfg), Getpid,
            WriteFile (pidfile cfg) (str_nat (self_pid w1) @ [CHR 0x0A]),
            Log Quiet 1070 (''Daemon Started - PID file: '' @ pidfile cfg)]"
    by (simp add: tr pid w0)
  have "files w2 = (files w0)(pidfile cfg \<mapsto> str_nat (self_pid w2) @ [CHR 0x0A])"
    by (subst dw(1)) simp
  then have c2: "files w1 = (files w)(pidfile cfg \<mapsto> str_nat (self_pid w1) @ [CHR 0x0A])"
    by (simp add: fl pid w0)
  have c3: "(case f2 of ForkFails e \<Rightarrow> False | InParent c \<Rightarrow> c = 0 | InChild p \<Rightarrow> self_pid w1 = p)"
    using dw(2) by (cases f2) (simp_all add: pid)
  have c4: "fst (read_pid (pidfile cfg) w1) = Returns (Some (int (self_pid w1)))"
    by (simp add: read_pid_def c2 read_back_str_nat)
  have c5: "start cfg run f1 f2 w = run (emit CallRun w1)"
    by (simp add: start_def assms)
  from c1 c2 c3 c4 c5 show ?thesis
    by blast
qed

theorem start_writes_pid_before_run_witness:
  "before_run cfg_plain (InChild 100) (InChild 101) world0 = (Returns (), world_started) \<and>
   files world_started ''/tmp/x.pid'' = Some ''101\<newline>'' \<and>
   fst (read_pid ''/tmp/x.pid'' world_started) = Returns (Some 101) \<and>
   start cfg_plain run_returns (InChild 100) (InChild 101) world0 =
     Some (Returns (), emit CallRun world_started)"
proof -
  have run: "before_run cfg_plain (InChild 100) (InChild 101) world0 = (Returns (), world_started)"
    by (simp add: before_run_def daemonize_def os_fork_def redirect_std_def read_pid_def
        truthy_def call_defs world0_def cfg_plain_def with_file_def str_nat_examples
        world_started_def)
  have pid: "self_pid world_started = 101" "pidfile cfg_plain = ''/tmp/x.pid''"
    by (simp_all add: world_started_def with_file_def cfg_plain_def)
  have "files world_started ''/tmp/x.pid'' = Some ''101\<newline>''"
    by (simp add: world_started_def with_file_def)
  with run start_writes_pid_before_run [OF run, of run_returns] show ?thesis
    by (simp add: pid run_returns_def)
qed

text \<open>
  Claim C7. When \<^verbatim>\<open>start\<close> has passed its check of the PID file and the first fork
  fails, \<^verbatim>\<open>start\<close> ends in \<^verbatim>\<open>log2die\<close> with code 1060 and a message that names fork #1,
  the error and the path of the PID file; when the second fork fails, in the child of
  the first, it ends with code 1061 and a message that names fork #2. In both cases no
  file is written and \<^verbatim>\<open>run\<close> is not called.
\<close>

theorem fork_failure_is_fatal:
  assumes "read_pid (pidfile cfg) w = (Returns pid, w0)" and "\<not> truthy pid"
  shows "start cfg run (ForkFails e) f2 w =
           Some (Raises (Fatal 1060
                   (''Daemon fork #1 failed: '' @ str_err e @ '' - PID file: '' @ pidfile cfg)),
             w\<lparr>trace := trace w @
               [ReadFile (pidfile cfg), Fork,
                Log Die 1060
                  (''Daemon fork #1 failed: '' @ str_err e @ '' - PID file: '' @ pidfile cfg)]\<rparr>) \<and>
         start cfg run (InChild p) (ForkFails e) w =
           Some (Raises (Fatal 1061
                   (''Daemon fork #2 failed: '' @ str_err e @ '' - PID file: '' @ pidfile cfg)),
             w\<lparr>self_pid := p,
               trace := trace w @
               [ReadFile (pidfile cfg), Fork, Chdir ''/'', Setsid, Umask 0, Fork,
                Log Die 1061
                  (''Daemon fork #2 failed: '' @ str_err e @ '' - PID file: '' @ pidfile cfg)]\<rparr>)"
proof -
  from assms(1) have w0: "w0 = w\<lparr>trace := trace w @ [ReadFile (pidfile cfg)]\<rparr>"
    using read_pid_world [of "pidfile cfg" w] by simp
  show ?thesis
    using assms
    by (simp add: start_def before_run_def daemonize_def os_fork_def w0 call_defs)
qed

theorem fork_failure_is_fatal_witness:
  "read_pid (pidfile cfg_plain) world0 =
     (Returns None, world0\<lparr>trace := [ReadFile ''/tmp/x.pid'']\<rparr>) \<and>
   \<not> truthy None \<and>
   start cfg_plain run_returns (ForkFails EAGAIN) (InChild 101) world0 =
     Some (Raises (Fatal 1060
             ''Daemon fork #1 failed: [Errno 11] Resource temporarily unavailable - PID file: /tmp/x.pid''),
       world0\<lparr>trace :=
         [ReadFile ''/tmp/x.pid'', Fork,
          Log Die 1060
            ''Daemon fork #1 failed: [Errno 11] Resource temporarily unavailable - PID file: /tmp/x.pid'']\<rparr>) \<and>
   start cfg_plain run_returns (InChild 100) (ForkFails ENOMEM) world0 =
     Some (Raises (Fatal 1061
             ''Daemon fork #2 failed: [Errno 12] Cannot allocate memory - PID file: /tmp/x.pid''),
       world0\<lparr>self_pid := 100,
         trace :=
         [ReadFile ''/tmp/x.pid'', Fork, Chdir ''/'', Setsid, Umask 0, Fork,
          Log Die 1061
            ''Daemon fork #2 failed: [Errno 12] Cannot allocate memory - PID file: /tmp/x.pid'']\<rparr>)"
proof -
  have rd: "read_pid (pidfile cfg_plain) world0 =
     (Returns None, world0\<lparr>trace := [ReadFile ''/tmp/x.pid'']\<rparr>)"
    by (simp add: read_pid_def emit_def cfg_plain_def world0_def)
  have fine: "\<not> truthy None"
    by (simp add: truthy_def)
  show ?thesis
    using fork_failure_is_fatal [OF rd fine, of run_returns EAGAIN "InChild 101" 100]
      fork_failure_is_fatal [OF rd fine, of run_returns ENOMEM "InChild 101" 100] rd
    by (simp add: truthy_def str_err_def str_nat_examples cfg_plain_def world0_def)
qed

text \<open>
  Claim C8. \<^verbatim>\<open>force\<close> is \<^verbatim>\<open>stop\<close> started in the world that differs from the given one
  only in that the configured lock file is absent and the trace holds the existence
  check of that file and, when it existed, its removal. With no lock file configured the
  two worlds are the same.
\<close>

theorem force_is_stop_without_lock:
  "force fuel cfg env w =
     stop fuel cfg env
       (w\<lparr>files := (case lockfile cfg of None \<Rightarrow> files w | Some l \<Rightarrow> (files w)(l := None)),
          trace := trace w @
            (case lockfile cfg of
               None \<Rightarrow> []
             | Some l \<Rightarrow> if files w l = None then [Exists l False] else [Exists l True, Remove l])\<rparr>)"
  by (simp add: force_def dellock_world split: option.splits)

theorem force_is_stop_without_lock_witness:
  "force 3 cfg_lock idle (with_file ''/tmp/x.lock'' '''' (with_file ''/tmp/x.pid'' ''42'' world0)) =
     stop 3 cfg_lock idle
       ((with_file ''/tmp/x.pid'' ''42'' world0)
          \<lparr>trace := [Exists ''/tmp/x.lock'' True, Remove ''/tmp/x.lock'']\<rparr>)"
  using force_is_stop_without_lock
    [of 3 cfg_lock idle "with_file ''/tmp/x.lock'' '''' (with_file ''/tmp/x.pid'' ''42'' world0)"]
  by (simp add: cfg_lock_def with_file_def world0_def)

text \<open>
  Claim C3. Let \<^verbatim>\<open>stop\<close> have read a PID other than 0 and let its loop end because
  \<^verbatim>\<open>os.kill\<close> raised \<^verbatim>\<open>OSError\<close> with \<open>ESRCH\<close>: the kernel knows no such process at
  that moment. Then \<^verbatim>\<open>stop\<close> returns normally, in the world given in full: the PID file
  and the configured lock file are absent, every other file is as the loop left it, and
  the loop's events are followed by those of \<^verbatim>\<open>delpid\<close>, \<^verbatim>\<open>dellock\<close>, \<^verbatim>\<open>delpid\<close> and
  \<^verbatim>\<open>dellock\<close> again and by the success message 1071. On this path the lock file is
  absent already when the signal fails, since the signal is tried only after a check
  that found it absent, so both calls of \<^verbatim>\<open>dellock\<close> find nothing to remove. The handler
  itself, in whatever world \<open>v\<close> it runs, returns normally and removes the PID file and
  the lock file when they exist.
\<close>

theorem stop_cleans_up_dead_process:
  assumes "files w (pidfile cfg) = Some c" and "py_int (py_strip c) = Some pid" and "pid \<noteq> 0"
    and "stop_loop fuel cfg env pid (w\<lparr>trace := trace w @ [ReadFile (pidfile cfg)]\<rparr>) =
           (Some (OSError ESRCH), w2)"
  shows "procs w2 pid = None \<and>
         (\<exists>tr. trace w2 = tr @ [Kill pid (Some (OSError ESRCH))]) \<and>
         (case lockfile cfg of None \<Rightarrow> True | Some l \<Rightarrow> files w2 l = None) \<and>
         stop_except cfg (OSError ESRCH) v =
           (Returns (),
            v\<lparr>files :=
                (case lockfile cfg of
                   None \<Rightarrow> (files v)(pidfile cfg := None)
                 | Some l \<Rightarrow> (files v)(pidfile cfg := None, l := None)),
              trace := trace v @
                (if files v (pidfile cfg) = None then [Exists (pidfile cfg) False]
                 else [Exists (pidfile cfg) True, Remove (pidfile cfg)]) @
                (case lockfile cfg of
                   None \<Rightarrow> []
                 | Some l \<Rightarrow>
                     if l = pidfile cfg \<or> files v l = None then [Exists l False]
                     else [Exists l True, Remove l])\<rparr>) \<and>
         stop fuel cfg env w =
           Some (Returns (),
             w2\<lparr>files :=
                 (case lockfile cfg of
                    None \<Rightarrow> (files w2)(pidfile cfg := None)
                  | Some l \<Rightarrow> (files w2)(pidfile cfg := None, l := None)),
               trace := trace w2 @
                 (if files w2 (pidfile cfg) = None then [Exists (pidfile cfg) False]
                  else [Exists (pidfile cfg) True, Remove (pidfile cfg)]) @
                 (case lockfile cfg of None \<Rightarrow> [] | Some l \<Rightarrow> [Exists l False]) @
                 [Exists (pidfile cfg) False] @
                 (case lockfile cfg of None \<Rightarrow> [] | Some l \<Rightarrow> [Exists l False]) @
                 [Log Quiet 1071 (''Daemon Stopped - PID file: '' @ pidfile cfg)]\<rparr>)"
proof -
  from stop_loop_raises [OF assms(4)] obtain tr where
    "trace w2 = (trace w @ [ReadFile (pidfile cfg)] @ tr) @ [Kill pid (Some (OSError ESRCH))]"
    and gone: "procs w2 pid = None"
    by auto
  then have killed: "\<exists>tr. trace w2 = tr @ [Kill pid (Some (OSError ESRCH))]"
    by blast
  have unlocked: "files w2 l = None" if "lockfile cfg = Some l" for l
    using assms(4) that by (rule stop_loop_raises_unlocked)
  then have lock: "(case lockfile cfg of None \<Rightarrow> True | Some l \<Rightarrow> files w2 l = None)"
    by (simp split: option.splits)
  note handler = handler_no_such_process [of cfg]
  have ret: "stop fuel cfg env w =
           Some (Returns (),
             w2\<lparr>files :=
                 (case lockfile cfg of
                    None \<Rightarrow> (files w2)(pidfile cfg := None)
                  | Some l \<Rightarrow> (files w2)(pidfile cfg := None, l := None)),
               trace := trace w2 @
                 (if files w2 (pidfile cfg) = None then [Exists (pidfile cfg) False]
                  else [Exists (pidfile cfg) True, Remove (pidfile cfg)]) @
                 (case lockfile cfg of None \<Rightarrow> [] | Some l \<Rightarrow> [Exists l False]) @
                 [Exists (pidfile cfg) False] @
                 (case lockfile cfg of None \<Rightarrow> [] | Some l \<Rightarrow> [Exists l False]) @
                 [Log Quiet 1071 (''Daemon Stopped - PID file: '' @ pidfile cfg)]\<rparr>)"
  proof (cases "lockfile cfg")
    case None
    then show ?thesis
      by (simp add: stop_with_pid [OF assms(1,2,3)] assms(4) handler delpid_world dellock_world
          log2quiet_def emit_def fun_upd_idem)
  next
    case (Some l)
    with unlocked have "files w2 l = None"
      by simp
    with Some show ?thesis
      by (simp add: stop_with_pid [OF assms(1,2,3)] assms(4) handler delpid_world dellock_world
          log2quiet_def emit_def fun_upd_idem)
  qed
  from gone killed lock handler [of v] ret show ?thesis
    by blast
qed

theorem stop_cleans_up_dead_process_witness:
  "files world_locked (pidfile cfg_lock) = Some ''42\<newline>'' \<and>
   py_int (py_strip ''42\<newline>'') = Some 42 \<and> (42 :: int) \<noteq> 0 \<and>
   stop_loop 2 cfg_lock unlock_later 42
       (world_locked\<lparr>trace := trace world_locked @ [ReadFile (pidfile cfg_lock)]\<rparr>) =
     (Some (OSError ESRCH), world_stopped) \<and>
   stop 2 cfg_lock unlock_later world_locked =
     Some (Returns (),
       world0\<lparr>clock := 2,
         trace :=
           [ReadFile ''/tmp/x.pid'', Sleep, Exists ''/tmp/x.lock'' True, Sleep,
            Exists ''/tmp/x.lock'' False, Kill 42 (Some (OSError ESRCH)),
            Exists ''/tmp/x.pid'' True, Remove ''/tmp/x.pid'', Exists ''/tmp/x.lock'' False,
            Exists ''/tmp/x.pid'' False, Exists ''/tmp/x.lock'' False,
            Log Quiet 1071 ''Daemon Stopped - PID file: /tmp/x.pid'']\<rparr>) \<and>
   stop_except cfg_lock (OSError ESRCH) world_locked =
     (Returns (),
      world0\<lparr>trace :=
        [Exists ''/tmp/x.pid'' True, Remove ''/tmp/x.pid'',
         Exists ''/tmp/x.lock'' True, Remove ''/tmp/x.lock'']\<rparr>)"
proof -
  have a: "files world_locked (pidfile cfg_lock) = Some ''42\<newline>''"
    by (simp add: world_defs)
  have b: "py_int (py_strip ''42\<newline>'') = Some 42"
    by (simp add: parse_defs)
  have c: "(42 :: int) \<noteq> 0"
    by simp
  have d: "stop_loop 2 cfg_lock unlock_later 42
       (world_locked\<lparr>trace := trace world_locked @ [ReadFile (pidfile cfg_lock)]\<rparr>) =
     (Some (OSError ESRCH), world_stopped)"
    by (simp add: numeral_2_eq_2 step_defs call_defs world_defs world_stopped_def)
  note inst = stop_cleans_up_dead_process [OF a b c d, of world_locked]
  have e: "stop 2 cfg_lock unlock_later world_locked =
     Some (Returns (),
       world0\<lparr>clock := 2,
         trace :=
           [ReadFile ''/tmp/x.pid'', Sleep, Exists ''/tmp/x.lock'' True, Sleep,
            Exists ''/tmp/x.lock'' False, Kill 42 (Some (OSError ESRCH)),
            Exists ''/tmp/x.pid'' True, Remove ''/tmp/x.pid'', Exists ''/tmp/x.lock'' False,
            Exists ''/tmp/x.pid'' False, Exists ''/tmp/x.lock'' False,
            Log Quiet 1071 ''Daemon Stopped - PID file: /tmp/x.pid'']\<rparr>)"
    using inst by (simp add: world_defs world_stopped_def)
  have f: "stop_except cfg_lock (OSError ESRCH) world_locked =
     (Returns (),
      world0\<lparr>trace :=
        [Exists ''/tmp/x.pid'' True, Remove ''/tmp/x.pid'',
         Exists ''/tmp/x.lock'' True, Remove ''/tmp/x.lock'']\<rparr>)"
    using inst by (simp add: world_defs)
  from a b c d e f show ?thesis
    by blast
qed

text \<open>
  Claim C4. With a lock file configured, in the events of any number of passes of the
  loop of \<^verbatim>\<open>stop\<close>, and in the events of a whole call of \<^verbatim>\<open>stop\<close> that returns, every
  call of \<^verbatim>\<open>os.kill\<close> comes directly after a check that found the lock file absent,
  and that check directly after a sleep. The environment acts only during a sleep, so
  the lock file is absent at the moment of the signal.
\<close>

theorem stop_defers_signal_to_lock:
  assumes "lockfile cfg = Some l"
  shows "(\<exists>evs. trace (snd (stop_loop n cfg env pid w)) = trace w @ evs \<and>
            deferred l None None evs) \<and>
         (\<forall>r w'. stop n cfg env w = Some (r, w') \<longrightarrow>
            (\<exists>evs. trace w' = trace w @ evs \<and> deferred l None None evs))"
  using stop_loop_deferred [OF assms, of n env pid w] stop_trace_deferred [OF assms]
  by blast

theorem stop_defers_signal_to_lock_witness:
  "lockfile cfg_lock = Some ''/tmp/x.lock'' \<and>
   trace (snd (stop_loop 3 cfg_lock unlock_later 42 (with_proc 42 Alive world_locked))) =
     [Sleep, Exists ''/tmp/x.lock'' True, Sleep, Exists ''/tmp/x.lock'' False, Kill 42 None, Sleep,
      Sleep, Exists ''/tmp/x.lock'' False, Kill 42 None, Sleep] \<and>
   deferred ''/tmp/x.lock'' None None
     [Sleep, Exists ''/tmp/x.lock'' True, Sleep, Exists ''/tmp/x.lock'' False, Kill 42 None, Sleep,
      Sleep, Exists ''/tmp/x.lock'' False, Kill 42 None, Sleep]"
proof -
  have lock: "lockfile cfg_lock = Some ''/tmp/x.lock''"
    by (simp add: cfg_lock_def)
  have fresh: "trace (with_proc 42 Alive world_locked) = []"
    by (simp add: world_defs)
  from stop_defers_signal_to_lock [OF lock, of 3 unlock_later 42 "with_proc 42 Alive world_locked"]
  show ?thesis
    by (simp add: lock locked_loop_trace fresh)
qed

text \<open>
  Claim C9, as amended. Let the PID file hold an integer other than 0. A call of \<^verbatim>\<open>stop\<close>
  that returns has made a call of \<^verbatim>\<open>os.kill\<close> that raised an exception. If the target
  is a process the caller may signal, its identifier fits \<^verbatim>\<open>pid_t\<close> and the environment
  never lets it exit, then \<^verbatim>\<open>stop\<close> does not return, however many passes of the loop are
  observed and whatever happens to the lock file. If a lock file is configured, exists
  and is never removed by the environment, \<^verbatim>\<open>stop\<close> does not return either.
\<close>

theorem stop_has_no_timeout:
  assumes "files w (pidfile cfg) = Some c" and "py_int (py_strip c) = Some pid" and "pid \<noteq> 0"
  shows "(\<forall>r w'. stop fuel cfg env w = Some (r, w') \<longrightarrow>
            (\<exists>x tr post. trace w' = trace w @ tr @ [Kill pid (Some x)] @ post)) \<and>
         (procs w pid = Some Alive \<and> - 2147483648 \<le> pid \<and> pid \<le> 2147483647 \<and>
            (\<forall>t. list_all (spares_proc pid) (env t)) \<longrightarrow>
          stop fuel cfg env w = None) \<and>
         (\<forall>l. lockfile cfg = Some l \<and> files w l \<noteq> None \<and>
            (\<forall>t. list_all (spares_file l) (env t)) \<longrightarrow>
          stop fuel cfg env w = None)"
proof (intro conjI allI impI)
  let ?w1 = "w\<lparr>trace := trace w @ [ReadFile (pidfile cfg)]\<rparr>"
  note unfold = stop_with_pid [OF assms, of fuel env]
  {
    fix r w'
    assume ret: "stop fuel cfg env w = Some (r, w')"
    obtain q w2 where loop: "stop_loop fuel cfg env pid ?w1 = (q, w2)"
      by (cases "stop_loop fuel cfg env pid ?w1")
    from ret loop unfold obtain x where q: "q = Some x"
      by (cases q) auto
    from stop_loop_raises [of fuel cfg env pid ?w1 x w2] loop q obtain tr where
      tr: "trace w2 = trace ?w1 @ tr @ [Kill pid (Some x)]"
      by auto
    from ret loop q unfold after_loop_quiet [where r = r and w' = w' and x = x and cfg = cfg]
    obtain post where "trace w' = trace w2 @ post"
      by auto
    with tr have "trace w' = trace w @ (ReadFile (pidfile cfg) # tr) @ [Kill pid (Some x)] @ post"
      by simp
    then show "\<exists>x tr post. trace w' = trace w @ tr @ [Kill pid (Some x)] @ post"
      by blast
  }
  {
    assume "procs w pid = Some Alive \<and> - 2147483648 \<le> pid \<and> pid \<le> 2147483647 \<and>
      (\<forall>t. list_all (spares_proc pid) (env t))"
    then have "fst (stop_loop fuel cfg env pid ?w1) = None"
      by (intro stop_loop_alive) simp_all
    then show "stop fuel cfg env w = None"
      by (auto simp add: unfold split: prod.splits)
  }
  {
    fix l
    assume "lockfile cfg = Some l \<and> files w l \<noteq> None \<and> (\<forall>t. list_all (spares_file l) (env t))"
    then have "fst (stop_loop fuel cfg env pid ?w1) = None"
      by (intro stop_loop_locked [where l = l]) simp_all
    then show "stop fuel cfg env w = None"
      by (auto simp add: unfold split: prod.splits)
  }
qed

theorem stop_has_no_timeout_witness:
  "files world_pid (pidfile cfg_plain) = Some ''42\<newline>'' \<and>
   py_int (py_strip ''42\<newline>'') = Some 42 \<and> (42 :: int) \<noteq> 0 \<and>
   stop 1 cfg_plain idle world_pid = Some (Returns (), world_pid_stopped) \<and>
   (\<exists>x tr post. trace world_pid_stopped = trace world_pid @ tr @ [Kill 42 (Some x)] @ post) \<and>
   procs (with_proc 42 Alive world_pid) 42 = Some Alive \<and>
   (\<forall>t. list_all (spares_proc 42) (idle t)) \<and>
   stop 7 cfg_plain idle (with_proc 42 Alive world_pid) = None \<and>
   lockfile cfg_lock = Some ''/tmp/x.lock'' \<and>
   files world_locked ''/tmp/x.lock'' = Some '''' \<and>
   (\<forall>t. list_all (spares_file ''/tmp/x.lock'') (idle t)) \<and>
   stop 7 cfg_lock idle world_locked = None"
proof -
  have a: "files world_pid (pidfile cfg_plain) = Some ''42\<newline>''"
    "files (with_proc 42 Alive world_pid) (pidfile cfg_plain) = Some ''42\<newline>''"
    "files world_locked (pidfile cfg_lock) = Some ''42\<newline>''"
    by (simp_all add: world_defs more_defs)
  have b: "py_int (py_strip ''42\<newline>'') = Some 42"
    by (simp add: parse_defs)
  have c: "(42 :: int) \<noteq> 0"
    by simp
  have d: "stop 1 cfg_plain idle world_pid = Some (Returns (), world_pid_stopped)"
    by (simp add: stop_def read_pid_def stop_except_def found_no_such_process delpid_def
        dellock_def step_defs call_defs world_defs more_defs parse_defs)
  have e: "procs (with_proc 42 Alive world_pid) 42 = Some Alive"
    "\<forall>t. list_all (spares_proc 42) (idle t)"
    "lockfile cfg_lock = Some ''/tmp/x.lock''"
    "files world_locked ''/tmp/x.lock'' = Some ''''"
    "\<forall>t. list_all (spares_file ''/tmp/x.lock'') (idle t)"
    by (simp_all add: world_defs more_defs)
  from stop_has_no_timeout [OF a(1) b c, of 1 idle] d
  have f: "\<exists>x tr post. trace world_pid_stopped = trace world_pid @ tr @ [Kill 42 (Some x)] @ post"
    by blast
  from stop_has_no_timeout [OF a(2) b c, of 7 idle] e(1,2)
  have g: "stop 7 cfg_plain idle (with_proc 42 Alive world_pid) = None"
    by simp
  from stop_has_no_timeout [OF a(3) b c, of 7 idle] e(3,4,5)
  have h: "stop 7 cfg_lock idle world_locked = None"
    by simp
  from a(1) b c d e f g h show ?thesis
    by blast
qed

theorem stop_foreign_process_counterexample:
  "procs (with_proc 42 Foreign world_pid) 42 = Some Foreign \<and>
   lockfile cfg_plain = None \<and>
   stop 1 cfg_plain idle (with_proc 42 Foreign world_pid) =
     Some (Raises (Fatal 1068 (str_args EPERM @ '' - PID file: /tmp/x.pid'')),
       (with_proc 42 Foreign world_pid)
         \<lparr>trace :=
            [ReadFile ''/tmp/x.pid'', Kill 42 (Some (OSError EPERM)),
             Log Die 1068 (str_args EPERM @ '' - PID file: /tmp/x.pid'')]\<rparr>)"
  by (simp add: stop_def read_pid_def stop_except_def found_not_permitted
      step_defs call_defs world_defs more_defs parse_defs)

end
